theory Spec2Isabelle
  imports Main "HOL-Library.Sublist" "HOL-Library.Char_ord" "HOL-Library.List_Lexorder"
begin

section \<open>Strings and arrays of the host language\<close>

text \<open>
  A string is a \<^typ>\<open>string\<close>; each \<^typ>\<open>char\<close> stands for one code unit below 256.
  \<open>trim\<close> strips the white space and line terminators of that range, \<open>toLowerCase\<close>
  maps the upper-case letters of that range, \<open>split\<close> on a one-character class is
  \<open>splitOn\<close> (the empty string splits into one empty piece), \<open>Array.join\<close> is
  \<open>joinWith\<close>, \<open>String.includes\<close> is \<^const>\<open>sublist\<close>, \<open>startsWith\<close> is
  \<^const>\<open>prefix\<close> and \<open>endsWith\<close> is \<^const>\<open>suffix\<close>.
\<close>

definition isWhiteSpace :: "char \<Rightarrow> bool" where
  "isWhiteSpace c = (c \<in> set [CHR 0x09, CHR 0x0A, CHR 0x0B, CHR 0x0C, CHR 0x0D, CHR 0x20, CHR 0xA0])"

definition trim :: "string \<Rightarrow> string" where
  "trim s = rev (dropWhile isWhiteSpace (rev (dropWhile isWhiteSpace s)))"

definition toLowerChar :: "char \<Rightarrow> char" where
  "toLowerChar c =
     (let n = (of_char c :: nat)
      in if (65 \<le> n \<and> n \<le> 90) \<or> (192 \<le> n \<and> n \<le> 222 \<and> n \<noteq> 215)
         then char_of (n + 32) else c)"

definition toLowerCase :: "string \<Rightarrow> string" where
  "toLowerCase s = map toLowerChar s"

fun splitOn :: "(char \<Rightarrow> bool) \<Rightarrow> string \<Rightarrow> string list" where
  "splitOn p [] = [[]]"
| "splitOn p (c # cs) =
     (if p c then [] # splitOn p cs
      else (case splitOn p cs of [] \<Rightarrow> [[c]] | w # ws \<Rightarrow> (c # w) # ws))"

definition isCommaOrSemicolon :: "char \<Rightarrow> bool" where
  "isCommaOrSemicolon c = (c = CHR '','' \<or> c = CHR '';'')"

definition joinWith :: "string \<Rightarrow> string list \<Rightarrow> string" where
  "joinWith sep xs = (case xs of [] \<Rightarrow> [] | y # ys \<Rightarrow> y @ concat (map (\<lambda>z. sep @ z) ys))"

text \<open>\<open>[...new Set(xs)]\<close>: the elements in the order of their first occurrence.\<close>

definition dedupe :: "'a list \<Rightarrow> 'a list" where
  "dedupe xs = foldl (\<lambda>acc x. if x \<in> set acc then acc else acc @ [x]) [] xs"

text \<open>\<open>xs.forEach(x => { if (!acc.includes(x)) acc.push(x) })\<close>.\<close>

definition pushMissing :: "'a list \<Rightarrow> 'a list \<Rightarrow> 'a list" where
  "pushMissing acc xs = foldl (\<lambda>a x. if x \<in> set a then a else a @ [x]) acc xs"

text \<open>The object found by \<open>find\<close> is mutated in place: the first match is replaced.\<close>

fun updateFirst :: "('a \<Rightarrow> bool) \<Rightarrow> ('a \<Rightarrow> 'a) \<Rightarrow> 'a list \<Rightarrow> 'a list" where
  "updateFirst p f [] = []"
| "updateFirst p f (x # xs) = (if p x then f x # xs else x # updateFirst p f xs)"

text \<open>\<open>xs.splice(idx, 1)\<close> at the index of the first match.\<close>

fun removeFirst :: "('a \<Rightarrow> bool) \<Rightarrow> 'a list \<Rightarrow> 'a list" where
  "removeFirst p [] = []"
| "removeFirst p (x # xs) = (if p x then xs else x # removeFirst p xs)"

section \<open>The data model\<close>

text \<open>
  The objects of a kind collection are built with different fields in different places
  (\<open>itemObj\<close> of \<open>addItemIfNotPresent\<close> has a name and roles, a pattern-any one an
  \<open>explicitList\<close> too, a composite its \<open>children\<close>, a closed list its \<open>subLists\<close>, a
  regex entity its \<open>regexPattern\<close>); a field an object was built without is \<open>None\<close>.
  The classes of \<open>helperClass\<close> are not part of the sources at hand: a constructor is
  taken to store its arguments by value under the field names the parser reads, an
  argument left out being the empty array.
\<close>

record namedObj =
  name :: string

record subList =
  canonicalForm :: string
  list :: "string list"

record roleObj = namedObj +
  roles :: "string list"

record luItem = roleObj +
  explicitList :: "string list option"
  children :: "string list option"
  subLists :: "subList list option"
  regexPattern :: "string option"

record entityAndRoles = roleObj +
  etype :: string

record modelObj = namedObj +
  mode :: bool
  words :: string
  activated :: bool

record utteranceEntity =
  entity :: string
  startPos :: int
  endPos :: int
  role :: "string option"

record uttereances =
  utext :: string
  intent :: string
  uentities :: "utteranceEntity list"

record pattern =
  pattern :: string
  pintent :: string

text \<open>
  The parsed content: the collections of \<open>LUISJsonStructure\<close>, its flat list of entities
  and roles (\<open>None\<close> while the property is undefined), the list of further files to
  parse and the word alterations of the knowledge base.
\<close>

record parsedContent =
  intents :: "namedObj list"
  entities :: "luItem list"
  composites :: "luItem list"
  closedLists :: "luItem list"
  regex_entities :: "luItem list"
  prebuiltEntities :: "luItem list"
  patternAnyEntities :: "luItem list"
  model_features :: "modelObj list"
  utterances :: "uttereances list"
  patterns :: "pattern list"
  flatListOfEntityAndRoles :: "entityAndRoles list option"
  additionalFilesToParse :: "string list"
  wordAlterations :: "string list list"

text \<open>
  \<open>LUISObjNameEnum\<close> names the collection an operation works on. \<open>INTENT\<close> is left out
  of the type: the intents carry no roles, only \<open>addItemIfNotPresent\<close> is ever called
  with it, and that instance is \<open>addIntentIfNotPresent\<close> below.
\<close>

datatype LUISObjNameEnum = ENTITIES | COMPOSITES | CLOSEDLISTS | REGEX | PREBUILT | PATTERNANYENTITY

fun getColl :: "LUISObjNameEnum \<Rightarrow> parsedContent \<Rightarrow> luItem list" where
  "getColl ENTITIES s = entities s"
| "getColl COMPOSITES s = composites s"
| "getColl CLOSEDLISTS s = closedLists s"
| "getColl REGEX s = regex_entities s"
| "getColl PREBUILT s = prebuiltEntities s"
| "getColl PATTERNANYENTITY s = patternAnyEntities s"

fun setColl :: "LUISObjNameEnum \<Rightarrow> luItem list \<Rightarrow> parsedContent \<Rightarrow> parsedContent" where
  "setColl ENTITIES xs s = s\<lparr>entities := xs\<rparr>"
| "setColl COMPOSITES xs s = s\<lparr>composites := xs\<rparr>"
| "setColl CLOSEDLISTS xs s = s\<lparr>closedLists := xs\<rparr>"
| "setColl REGEX xs s = s\<lparr>regex_entities := xs\<rparr>"
| "setColl PREBUILT xs s = s\<lparr>prebuiltEntities := xs\<rparr>"
| "setColl PATTERNANYENTITY xs s = s\<lparr>patternAnyEntities := xs\<rparr>"

section \<open>Errors\<close>

datatype errorCode =
  INVALID_INPUT | INVALID_COMPOSITE_ENTITY | INVALID_REGEX_ENTITY | SYNONYMS_NOT_A_LIST
  | MISSING_LABELLED_VALUE

text \<open>
  What a handler throws: the parser's own \<open>exception\<close> with its error code and the
  message handed to \<open>BuildDiagnostic\<close>, or an error of the runtime (a name that is not
  in scope, a property read off \<open>undefined\<close>).
\<close>

datatype error = Exception errorCode string | ReferenceError string | TypeError string

section \<open>The registry helpers\<close>

text \<open>
  \<open>mergeRoles\<close> collects the roles already there as the keys of an object literal and
  appends each new role \<open>r\<close> unless \<open>rolesMap[r]\<close> is truthy. The lookup also finds what
  the literal inherits from \<open>Object.prototype\<close>, each of them truthy.
\<close>

definition objectPrototypeKeys :: "string list" where
  "objectPrototypeKeys =
     [''constructor'', ''hasOwnProperty'', ''isPrototypeOf'', ''propertyIsEnumerable'',
      ''toLocaleString'', ''toString'', ''valueOf'', ''__proto__'', ''__defineGetter__'',
      ''__defineSetter__'', ''__lookupGetter__'', ''__lookupSetter__'']"

definition rolesMapHas :: "string list \<Rightarrow> string \<Rightarrow> bool" where
  "rolesMapHas srcEntityRoles r = (r \<in> set srcEntityRoles \<or> r \<in> set objectPrototypeKeys)"

definition mergeRoles :: "string list \<Rightarrow> string list \<Rightarrow> string list" where
  "mergeRoles srcEntityRoles tgtEntityRoles =
     srcEntityRoles @ filter (\<lambda>r. \<not> rolesMapHas srcEntityRoles r) tgtEntityRoles"

definition hasName :: "string \<Rightarrow> 'a namedObj_scheme \<Rightarrow> bool" where
  "hasName v item = (name item = v)"

definition itemObj :: "LUISObjNameEnum \<Rightarrow> string \<Rightarrow> string list \<Rightarrow> luItem" where
  "itemObj ty v rs =
     \<lparr>name = v, roles = rs,
      explicitList = (if ty = PATTERNANYENTITY then Some [] else None),
      children = None, subLists = None, regexPattern = None\<rparr>"

definition addIntentIfNotPresent :: "parsedContent \<Rightarrow> string \<Rightarrow> parsedContent" where
  "addIntentIfNotPresent s v =
     (if list_ex (hasName v) (intents s) then s
      else s\<lparr>intents := intents s @ [\<lparr>name = v\<rparr>]\<rparr>)"

definition addItemIfNotPresent :: "parsedContent \<Rightarrow> LUISObjNameEnum \<Rightarrow> string \<Rightarrow> parsedContent" where
  "addItemIfNotPresent s ty v =
     (if list_ex (hasName v) (getColl ty s) then s
      else setColl ty (getColl ty s @ [itemObj ty v []]) s)"

definition addItemOrRoleIfNotPresent ::
  "parsedContent \<Rightarrow> LUISObjNameEnum \<Rightarrow> string \<Rightarrow> string list \<Rightarrow> parsedContent" where
  "addItemOrRoleIfNotPresent s ty v rs =
     (if list_ex (hasName v) (getColl ty s)
      then setColl ty
             (updateFirst (hasName v) (\<lambda>item. item\<lparr>roles := mergeRoles (roles item) rs\<rparr>)
                (getColl ty s)) s
      else setColl ty (getColl ty s @ [itemObj ty v rs]) s)"

text \<open>A text is truthy when it is defined and not empty.\<close>

definition truthyText :: "string option \<Rightarrow> bool" where
  "truthyText v = (case v of None \<Rightarrow> False | Some t \<Rightarrow> t \<noteq> [])"

section \<open>Diagnostics\<close>

text \<open>
  An exception carries the message its handler builds; the source position that
  \<open>BuildDiagnostic\<close> renders around it is left out, and so are the parameters of the
  handlers that only carry that position. Writing a warning to the standard output
  changes nothing in the parsed content and is left out too.
\<close>

definition dq :: string where
  "dq = [CHR 0x22]"

definition sq :: string where
  "sq = [CHR 0x27]"

definition nl :: string where
  "nl = [CHR 0x0A]"

definition priorDefinition :: "entityAndRoles \<Rightarrow> string" where
  "priorDefinition item =
     '' Prior definition - '' @ sq @ ''@ '' @ etype item @ '' '' @ name item
       @ (if roles item \<noteq> [] then '' hasRoles '' @ joinWith '','' (roles item) else [])
       @ sq"

type_synonym 'a result = "(error + 'a) \<times> parsedContent"

section \<open>Role validation against the flat list\<close>

text \<open>
  Modelled from the spec: the method \<open>addRoles\<close> of an entry of the flat list is not
  part of the sources at hand; updating the flat index adds to the entry the roles it
  does not hold yet.
\<close>

definition addRoles :: "entityAndRoles \<Rightarrow> string list \<Rightarrow> entityAndRoles" where
  "addRoles oldEntity newRoles = oldEntity\<lparr>roles := pushMissing (roles oldEntity) newRoles\<rparr>"

definition splitRoles :: "string option \<Rightarrow> string list" where
  "splitRoles rolesText =
     (case rolesText of
        None \<Rightarrow> []
      | Some r \<Rightarrow> if r = [] then [] else dedupe (map trim (splitOn (\<lambda>c. c = CHR '','') r)))"

definition nameClash :: "string \<Rightarrow> string \<Rightarrow> entityAndRoles \<Rightarrow> bool" where
  "nameClash entityName entityType item = (name item = entityName \<and> etype item \<noteq> entityType)"

definition entityFoundMsg :: "string \<Rightarrow> string \<Rightarrow> entityAndRoles \<Rightarrow> string" where
  "entityFoundMsg entityName entityType entityFound =
     (if nameClash entityName entityType entityFound
      then ''Entity names must be unique. Duplicate definition found for '' @ dq @ entityName @ dq @ ''.''
      else ''Entity name cannot be the same as a role name. Duplicate definition found for ''
             @ dq @ entityName @ dq @ ''.'')
     @ priorDefinition entityFound"

definition roleFoundMsg :: "string \<Rightarrow> entityAndRoles \<Rightarrow> string" where
  "roleFoundMsg entityName roleFound =
     ''Roles must be unique across entity types. Invalid role definition found '' @ dq @ entityName
       @ dq @ ''.'' @ priorDefinition roleFound"

text \<open>The first new role that is a role or the name of an entry, with that entry.\<close>

fun firstRoleFound :: "entityAndRoles list \<Rightarrow> string list \<Rightarrow> entityAndRoles option" where
  "firstRoleFound fl [] = None"
| "firstRoleFound fl (r # rs) =
     (case find (\<lambda>item. r \<in> set (roles item) \<or> name item = r) fl of
        Some roleFound \<Rightarrow> Some roleFound
      | None \<Rightarrow> firstRoleFound fl rs)"

definition sameEntity :: "string \<Rightarrow> string \<Rightarrow> entityAndRoles \<Rightarrow> bool" where
  "sameEntity entityName entityType item = (name item = entityName \<and> etype item = entityType)"

definition validateAndGetRoles ::
  "parsedContent \<Rightarrow> string option \<Rightarrow> string \<Rightarrow> string \<Rightarrow> string list result" where
  "validateAndGetRoles s rolesText entityName entityType =
     (let newRoles = splitRoles rolesText in
      case flatListOfEntityAndRoles s of
        None \<Rightarrow>
          (Inr newRoles,
           s\<lparr>flatListOfEntityAndRoles :=
               Some [\<lparr>name = entityName, roles = newRoles, etype = entityType\<rparr>]\<rparr>)
      | Some fl \<Rightarrow>
          (case find (\<lambda>item. nameClash entityName entityType item \<or> entityName \<in> set (roles item)) fl of
             Some entityFound \<Rightarrow>
               (Inl (Exception INVALID_INPUT (entityFoundMsg entityName entityType entityFound)), s)
           | None \<Rightarrow>
               (case firstRoleFound fl newRoles of
                  Some roleFound \<Rightarrow>
                    (Inl (Exception INVALID_INPUT (roleFoundMsg entityName roleFound)), s)
                | None \<Rightarrow>
                    (Inr newRoles,
                     s\<lparr>flatListOfEntityAndRoles :=
                         Some (if list_ex (sameEntity entityName entityType) fl
                               then updateFirst (sameEntity entityName entityType)
                                      (\<lambda>oldEntity. addRoles oldEntity newRoles) fl
                               else fl @ [\<lparr>name = entityName, roles = newRoles,
                                           etype = entityType\<rparr>])\<rparr>))))"

section \<open>Helpers shared by the declaration handlers\<close>

text \<open>
  The loop that removes a simple entity splices at the running index and then
  increments it, so the element that follows a removed one is not looked at.
\<close>

fun spliceLoop :: "string \<Rightarrow> luItem list \<Rightarrow> luItem list" where
  "spliceLoop n [] = []"
| "spliceLoop n [x] = (if name x = n then [] else [x])"
| "spliceLoop n (x # y # ys) =
     (if name x = n then y # spliceLoop n ys else x # spliceLoop n (y # ys))"

definition labelledMsg :: "string \<Rightarrow> string \<Rightarrow> string \<Rightarrow> string" where
  "labelledMsg entityType entityName uttText =
     sq @ entityType @ sq @ '' entity: '' @ dq @ entityName @ dq
       @ '' is added as a labelled entity in utterance '' @ dq @ uttText @ dq @ ''. ''
       @ entityType @ '' cannot be added with explicit labelled values in utterances.''"

text \<open>
  The labels of the first utterance that names the entity: a role is collected, a
  label without one throws unless the new type is a phrase list.
\<close>

fun importLabelRoles ::
  "string \<Rightarrow> string \<Rightarrow> string \<Rightarrow> string list \<Rightarrow> utteranceEntity list \<Rightarrow> error + string list" where
  "importLabelRoles entityType entityName uttText entityRoles [] = Inr entityRoles"
| "importLabelRoles entityType entityName uttText entityRoles (e # es) =
     (case role e of
        Some r \<Rightarrow>
          importLabelRoles entityType entityName uttText
            (if r \<in> set entityRoles then entityRoles else entityRoles @ [r]) es
      | None \<Rightarrow>
          if entityType \<noteq> ''Phrase List''
          then Inl (Exception INVALID_INPUT (labelledMsg entityType entityName uttText))
          else importLabelRoles entityType entityName uttText entityRoles es)"

definition VerifyAndUpdateSimpleEntityCollection ::
  "parsedContent \<Rightarrow> string \<Rightarrow> string \<Rightarrow> string list result" where
  "VerifyAndUpdateSimpleEntityCollection s entityName entityType =
     (let simpleEntityExists = find (hasName entityName) (entities s);
          entityRoles = (case simpleEntityExists of
                           None \<Rightarrow> []
                         | Some simple \<Rightarrow> pushMissing [] (roles simple));
          s1 = (case simpleEntityExists of
                  None \<Rightarrow> s
                | Some simple \<Rightarrow>
                    if entityType \<noteq> ''Phrase List''
                    then s\<lparr>entities := spliceLoop (name simple) (entities s)\<rparr>
                    else s)
      in case find (\<lambda>item. list_ex (\<lambda>e. entity e = entityName) (uentities item)) (utterances s1) of
           None \<Rightarrow> (Inr entityRoles, s1)
         | Some entityExistsInUtteranceLabel \<Rightarrow>
             (importLabelRoles entityType entityName (utext entityExistsInUtteranceLabel) entityRoles
                (filter (\<lambda>item. entity item = entityName) (uentities entityExistsInUtteranceLabel)),
              s1))"

definition phraseListInPatternMsg :: "string \<Rightarrow> string" where
  "phraseListInPatternMsg pEntityName =
     ''Phrase lists cannot be used as an entity in a pattern '' @ dq @ pEntityName @ dq"

definition RemoveDuplicatePatternAnyEntity ::
  "parsedContent \<Rightarrow> string \<Rightarrow> string \<Rightarrow> string list result" where
  "RemoveDuplicatePatternAnyEntity s pEntityName entityType =
     (case find (hasName pEntityName) (patternAnyEntities s) of
        None \<Rightarrow> (Inr [], s)
      | Some PAEntityFound \<Rightarrow>
          if sublist ''phraselist'' (trim (toLowerCase entityType))
          then (Inl (Exception INVALID_INPUT (phraseListInPatternMsg pEntityName)), s)
          else (Inr (roles PAEntityFound),
                s\<lparr>patternAnyEntities := removeFirst (hasName pEntityName) (patternAnyEntities s)\<rparr>))"

section \<open>The declaration handlers\<close>

subsection \<open>Pattern-any entities\<close>

definition patternAnyEntity :: "string \<Rightarrow> string list \<Rightarrow> string list \<Rightarrow> luItem" where
  "patternAnyEntity n el rs =
     \<lparr>name = n, roles = rs, explicitList = Some el, children = None, subLists = None,
      regexPattern = None\<rparr>"

text \<open>
  For a record that is already there the handler pushes a role when
  \<open>!PAExists.roles.includes\<close> holds: the negation of the method itself, which is
  a function and so never falsy.
\<close>

definition includesMethodIsFalsy :: bool where
  "includesMethodIsFalsy = False"

definition handlePatternAny :: "parsedContent \<Rightarrow> string \<Rightarrow> string list \<Rightarrow> unit result" where
  "handlePatternAny s entityName entityRoles =
     (case VerifyAndUpdateSimpleEntityCollection s entityName ''Pattern.Any'' of
        (Inl err, s1) \<Rightarrow> (Inl err, s1)
      | (Inr rolesImport, s1) \<Rightarrow>
          (let entityRoles1 = pushMissing entityRoles rolesImport in
           case find (hasName entityName) (patternAnyEntities s1) of
             None \<Rightarrow>
               (Inr (),
                s1\<lparr>patternAnyEntities :=
                     patternAnyEntities s1 @ [patternAnyEntity entityName [] entityRoles1]\<rparr>)
           | Some PAExists \<Rightarrow>
               (Inr (),
                s1\<lparr>patternAnyEntities :=
                     updateFirst (hasName entityName)
                       (\<lambda>item. item\<lparr>roles := roles item
                                   @ filter (\<lambda>r. includesMethodIsFalsy) entityRoles1\<rparr>)
                       (patternAnyEntities s1)\<rparr>)))"

subsection \<open>Phrase lists\<close>

definition isLineTerminator :: "char \<Rightarrow> bool" where
  "isLineTerminator c = (c = CHR 0x0A \<or> c = CHR 0x0D)"

text \<open>\<open>s.split(/\(.*\)/g)[0]\<close>: what stands before the first parenthesised part.\<close>

fun beforeParens :: "string \<Rightarrow> string" where
  "beforeParens [] = []"
| "beforeParens (c # cs) =
     (if c = CHR ''('' \<and> CHR '')'' \<in> set (takeWhile (\<lambda>d. \<not> isLineTerminator d) cs)
      then [] else c # beforeParens cs)"

definition phraseListRolesMsg :: "string \<Rightarrow> string list \<Rightarrow> string" where
  "phraseListRolesMsg entityName entityRoles =
     ''Phrase list entity '' @ entityName @ '' has invalid role definition with roles = ''
       @ joinWith '', '' entityRoles @ ''. Roles are not supported for Phrase Lists''"

text \<open>A value is appended to the comma-joined words unless the words include it.\<close>

definition appendWord :: "string \<Rightarrow> string \<Rightarrow> string" where
  "appendWord ws plValueItem =
     (if sublist plValueItem ws then ws
      else ws @ (if ws \<noteq> [] then '','' else []) @ plValueItem)"

text \<open>
  Where the interchangeable flags differ the handler builds its diagnostic from
  \<open>entity.ParseTree.entityLine()\<close>; no \<open>entity\<close> is in scope there, so evaluating the
  argument throws a \<open>ReferenceError\<close> before the exception is built.
\<close>

definition handlePhraseList ::
  "parsedContent \<Rightarrow> string \<Rightarrow> string option \<Rightarrow> string list \<Rightarrow> string list \<Rightarrow> unit result" where
  "handlePhraseList s entityName entityType entityRoles valuesList =
     (if entityRoles \<noteq> []
      then (Inl (Exception INVALID_INPUT (phraseListRolesMsg entityName entityRoles)), s)
      else
        case VerifyAndUpdateSimpleEntityCollection s entityName ''Phrase List'' of
          (Inl err, s1) \<Rightarrow> (Inl err, s1)
        | (Inr rolesImport, s1) \<Rightarrow>
            (let lEntityType = (case entityType of
                                  None \<Rightarrow> entityName
                                | Some t \<Rightarrow> if t \<noteq> [] then t else entityName);
                 intc = sublist ''interchangeable'' (toLowerCase lEntityType);
                 entityName1 = (if intc \<and> entityType = None then beforeParens lEntityType
                                else entityName);
                 pLValues = concat (map (\<lambda>phraseListValues.
                                map trim (splitOn isCommaOrSemicolon phraseListValues)) valuesList)
             in case find (hasName entityName1) (model_features s1) of
                  Some pLEntityExists \<Rightarrow>
                    if mode pLEntityExists = intc
                    then (Inr (),
                          s1\<lparr>model_features :=
                               updateFirst (hasName entityName1)
                                 (\<lambda>item. item\<lparr>words := foldl appendWord (words item) pLValues\<rparr>)
                                 (model_features s1)\<rparr>)
                    else (Inl (ReferenceError ''entity is not defined''), s1)
                | None \<Rightarrow>
                    (Inr (),
                     s1\<lparr>model_features :=
                          model_features s1
                          @ [\<lparr>name = entityName1, mode = intc, words = joinWith '','' pLValues,
                              activated = True\<rparr>]\<rparr>)))"

subsection \<open>Prebuilt entities\<close>

text \<open>
  The tables of the builtin types are not part of the sources at hand; the handlers
  take them as a parameter. An entry of the availability table of a locale is absent,
  \<open>null\<close> or the name of the type to use.
\<close>

datatype availability = Undefined | Null | Available string

record builtInTypes =
  consolidatedList :: "string list"
  perLocaleAvailability :: "string \<Rightarrow> (string \<Rightarrow> availability) option"

definition unknownPrebuiltMsg :: "builtInTypes \<Rightarrow> string \<Rightarrow> string" where
  "unknownPrebuiltMsg B entityType =
     ''Unknown PREBUILT entity '' @ sq @ entityType @ sq @ ''. Available pre-built types are ''
       @ joinWith '','' (consolidatedList B)"

definition prebuiltLocaleMsg :: "string \<Rightarrow> string \<Rightarrow> string" where
  "prebuiltLocaleMsg entityType locale =
     ''PREBUILT entity '' @ sq @ entityType @ sq @ '' is not available for the requested locale ''
       @ sq @ locale @ sq"

definition handlePrebuiltEntity ::
  "builtInTypes \<Rightarrow> parsedContent \<Rightarrow> string \<Rightarrow> string \<Rightarrow> string list \<Rightarrow> string option \<Rightarrow> bool
     \<Rightarrow> unit result" where
  "handlePrebuiltEntity B s entityName entityType entityRoles locale log =
     (let locale1 = (case locale of
                       None \<Rightarrow> ''en-us''
                     | Some l \<Rightarrow> if l \<noteq> [] then toLowerCase l else ''en-us'')
      in case VerifyAndUpdateSimpleEntityCollection s entityType entityName of
           (Inl err, s1) \<Rightarrow> (Inl err, s1)
         | (Inr rolesImport, s1) \<Rightarrow>
             (let entityRoles1 = pushMissing entityRoles rolesImport in
              if entityType \<notin> set (consolidatedList B)
              then (Inl (Exception INVALID_INPUT (unknownPrebuiltMsg B entityType)), s1)
              else
                case perLocaleAvailability B locale1 of
                  None \<Rightarrow> (Inl (TypeError ''Cannot read properties of undefined''), s1)
                | Some table \<Rightarrow>
                    (case table entityType of
                       Null \<Rightarrow>
                         if log then (Inr (), s1)
                         else (Inl (Exception INVALID_INPUT (prebuiltLocaleMsg entityType locale1)), s1)
                     | Available prebuiltCheck \<Rightarrow>
                         if prebuiltCheck \<noteq> [] \<and> sublist ''datetime'' prebuiltCheck
                         then (Inr (), addItemOrRoleIfNotPresent s1 PREBUILT prebuiltCheck entityRoles1)
                         else (Inr (), addItemOrRoleIfNotPresent s1 PREBUILT entityType entityRoles1)
                     | Undefined \<Rightarrow>
                         (Inr (), addItemOrRoleIfNotPresent s1 PREBUILT entityType entityRoles1))))"

subsection \<open>Composite entities\<close>

definition compositeEntity :: "string \<Rightarrow> string list \<Rightarrow> string list \<Rightarrow> luItem" where
  "compositeEntity n cs rs =
     \<lparr>name = n, roles = rs, explicitList = None, children = Some cs, subLists = None,
      regexPattern = None\<rparr>"

definition missingChildrenMsg :: "string \<Rightarrow> string" where
  "missingChildrenMsg entityName =
     ''Composite entity: '' @ entityName
       @ '' is missing child entity definitions. Child entities are denoted via [entity1, entity2] notation.''"

definition differentChildrenMsg :: "string \<Rightarrow> string list \<Rightarrow> string list \<Rightarrow> string" where
  "differentChildrenMsg entityName compositeChildren cs =
     ''Composite entity: '' @ entityName @ '' has multiple definition with different children. ''
       @ nl @ '' 1. '' @ joinWith '', '' compositeChildren @ nl @ '' 2. '' @ joinWith '', '' cs"

text \<open>
  \<open>childDefinition\<close>: the text trimmed, its first opening and its first closing bracket
  dropped, trimmed again.
\<close>

definition childDefinitionOf :: "string \<Rightarrow> string" where
  "childDefinitionOf entityType =
     trim (removeFirst (\<lambda>c. c = CHR '']'') (removeFirst (\<lambda>c. c = CHR ''['') (trim entityType)))"

text \<open>The children of a definition: its parts between commas and semicolons, trimmed.\<close>

definition compositeChildrenOf :: "string \<Rightarrow> string list" where
  "compositeChildrenOf entityType =
     (let childDefinition = childDefinitionOf entityType
      in if childDefinition \<noteq> [] then map trim (splitOn isCommaOrSemicolon childDefinition)
         else [])"

text \<open>
  The comparison of the children sorts both arrays in place, and it is only made for
  a record that has children: the record keeps the sorted children also when the
  handler throws, and the new children are appended in sorted order.
\<close>

definition handleComposite ::
  "parsedContent \<Rightarrow> string \<Rightarrow> string \<Rightarrow> string list \<Rightarrow> bool \<Rightarrow> unit result" where
  "handleComposite s entityName entityType entityRoles inlineChildRequired =
     (let simpleEntityExists = find (hasName entityName) (entities s);
          entityRoles1 = (case simpleEntityExists of
                            None \<Rightarrow> entityRoles
                          | Some simple \<Rightarrow> pushMissing entityRoles (roles simple));
          s1 = (case simpleEntityExists of
                  None \<Rightarrow> s
                | Some simple \<Rightarrow> s\<lparr>entities := spliceLoop (name simple) (entities s)\<rparr>);
          childDefinition = childDefinitionOf entityType
      in if childDefinition = [] \<and> inlineChildRequired
         then (Inl (Exception INVALID_COMPOSITE_ENTITY (missingChildrenMsg entityName)), s1)
         else
           (let compositeChildren = compositeChildrenOf entityType
            in case find (hasName entityName) (composites s1) of
                 None \<Rightarrow>
                   (Inr (),
                    s1\<lparr>composites := composites s1 @ [compositeEntity entityName compositeChildren entityRoles1],
                       entities := filter (\<lambda>e. name e \<noteq> entityName) (entities s1)\<rparr>)
               | Some found \<Rightarrow>
                   (case children found of
                      None \<Rightarrow> (Inl (TypeError ''Cannot read properties of undefined''), s1)
                    | Some cs \<Rightarrow>
                        if cs \<noteq> [] \<and> sort compositeChildren \<noteq> sort cs
                        then (Inl (Exception INVALID_COMPOSITE_ENTITY
                                    (differentChildrenMsg entityName (sort compositeChildren) (sort cs))),
                              s1\<lparr>composites :=
                                   updateFirst (hasName entityName)
                                     (\<lambda>item. item\<lparr>children := Some (sort cs)\<rparr>) (composites s1)\<rparr>)
                        else
                          (Inr (),
                           addItemOrRoleIfNotPresent
                             (s1\<lparr>composites :=
                                  updateFirst (hasName entityName)
                                    (\<lambda>item. item\<lparr>children :=
                                        Some (if cs \<noteq> [] then sort cs @ sort compositeChildren
                                              else compositeChildren)\<rparr>)
                                    (composites s1)\<rparr>)
                             COMPOSITES (name found) entityRoles1))))"

subsection \<open>Regular expression entities\<close>

definition regExEntity :: "string \<Rightarrow> string \<Rightarrow> string list \<Rightarrow> luItem" where
  "regExEntity n regex rs =
     \<lparr>name = n, roles = rs, explicitList = None, children = None, subLists = None,
      regexPattern = Some regex\<rparr>"

definition emptyRegexMsg :: "string \<Rightarrow> string" where
  "emptyRegexMsg entityName = ''RegEx entity: '' @ entityName @ '' has empty regex pattern defined.''"

definition multipleRegexMsg :: "string \<Rightarrow> string \<Rightarrow> string option \<Rightarrow> string" where
  "multipleRegexMsg entityName regex old =
     ''RegEx entity: '' @ entityName @ '' has multiple regex patterns defined. '' @ nl
       @ '' 1. /'' @ regex @ ''/'' @ nl @ '' 2. /''
       @ (case old of None \<Rightarrow> ''undefined'' | Some p \<Rightarrow> p) @ ''/''"

text \<open>
  The definition, when one is given (a non-empty text), is cut to what stands between
  its first and its last character (\<open>slice(1, length - 1)\<close>).
\<close>

definition regexOf :: "string option \<Rightarrow> string" where
  "regexOf entityType =
     (case entityType of None \<Rightarrow> [] | Some t \<Rightarrow> if t = [] then [] else butlast (tl t))"

definition definitionGiven :: "string option \<Rightarrow> bool" where
  "definitionGiven entityType = (case entityType of None \<Rightarrow> False | Some t \<Rightarrow> t \<noteq> [])"

definition handleRegExEntity ::
  "parsedContent \<Rightarrow> string \<Rightarrow> string option \<Rightarrow> string list \<Rightarrow> unit result" where
  "handleRegExEntity s entityName entityType entityRoles =
     (case VerifyAndUpdateSimpleEntityCollection s entityName ''RegEx'' of
        (Inl err, s1) \<Rightarrow> (Inl err, s1)
      | (Inr rolesImport, s1) \<Rightarrow>
          (let entityRoles1 = pushMissing entityRoles rolesImport;
               regex = regexOf entityType
           in if definitionGiven entityType \<and> regex = []
              then (Inl (Exception INVALID_REGEX_ENTITY (emptyRegexMsg entityName)), s1)
              else
                case find (hasName entityName) (regex_entities s1) of
                  None \<Rightarrow>
                    (Inr (),
                     s1\<lparr>regex_entities := regex_entities s1 @ [regExEntity entityName regex entityRoles1]\<rparr>)
                | Some found \<Rightarrow>
                    if regexPattern found \<noteq> Some [] \<and> regex \<noteq> [] \<and> regexPattern found \<noteq> Some regex
                    then (Inl (Exception INVALID_REGEX_ENTITY
                                (multipleRegexMsg (name found) regex (regexPattern found))), s1)
                    else
                      (let s2 = addItemOrRoleIfNotPresent s1 REGEX (name found) entityRoles1
                       in (Inr (),
                           s2\<lparr>regex_entities :=
                                updateFirst (hasName entityName)
                                  (\<lambda>item. if regexPattern item = Some [] then item\<lparr>regexPattern := Some regex\<rparr>
                                          else item)
                                  (regex_entities s2)\<rparr>))))"

subsection \<open>Closed lists\<close>

definition newClosedLists :: "string \<Rightarrow> subList list \<Rightarrow> string list \<Rightarrow> luItem" where
  "newClosedLists n sls rs =
     \<lparr>name = n, roles = rs, explicitList = None, children = None, subLists = Some sls,
      regexPattern = None\<rparr>"

definition synonymsMsg :: "string \<Rightarrow> string \<Rightarrow> string" where
  "synonymsMsg entityName line =
     ''Closed list '' @ entityName @ '' has synonyms list '' @ dq @ line @ dq
       @ '' without a normalized value.''"

text \<open>
  While the lines of a list are read, \<open>nvExists\<close> is undefined, a new sublist that is
  not yet part of the closed list (\<open>addNV\<close> is set), or a sublist of the closed list,
  which is then changed in place; the latter is named by its canonical form, the first
  sublist of that form being the one \<open>find\<close> returned.
\<close>

datatype nvRef = NoNV | NewNV subList | OldNV string

definition hasForm :: "string \<Rightarrow> subList \<Rightarrow> bool" where
  "hasForm v sl = (canonicalForm sl = v)"

definition pushSynonym :: "string \<Rightarrow> subList \<Rightarrow> subList" where
  "pushSynonym item sl = (if item \<in> set (list sl) then sl else sl\<lparr>list := list sl @ [item]\<rparr>)"

fun synonymItems ::
  "string \<Rightarrow> string \<Rightarrow> luItem \<Rightarrow> nvRef \<Rightarrow> string list \<Rightarrow> (error \<times> luItem) + (luItem \<times> nvRef)" where
  "synonymItems entityName line cl nv [] = Inr (cl, nv)"
| "synonymItems entityName line cl nv (item # items) =
     (case nv of
        NoNV \<Rightarrow> Inl (Exception SYNONYMS_NOT_A_LIST (synonymsMsg entityName line), cl)
      | NewNV sl \<Rightarrow> synonymItems entityName line cl (NewNV (pushSynonym item sl)) items
      | OldNV v \<Rightarrow>
          synonymItems entityName line
            (cl\<lparr>subLists := map_option (updateFirst (hasForm v) (pushSynonym item)) (subLists cl)\<rparr>)
            nv items)"

definition closeSubList :: "luItem \<Rightarrow> nvRef \<Rightarrow> luItem" where
  "closeSubList cl nv =
     (case nv of
        NewNV sl \<Rightarrow> cl\<lparr>subLists := map_option (\<lambda>sls. sls @ [sl]) (subLists cl)\<rparr>
      | _ \<Rightarrow> cl)"

fun listLinesLoop ::
  "string \<Rightarrow> luItem \<Rightarrow> nvRef \<Rightarrow> string list \<Rightarrow> (error \<times> luItem) + (luItem \<times> nvRef)" where
  "listLinesLoop entityName cl nv [] = Inr (cl, nv)"
| "listLinesLoop entityName cl nv (line # ls) =
     (if suffix '':'' (toLowerCase line)
      then
        (let cl1 = closeSubList cl nv;
             normalizedValue = trim (butlast line)
         in case subLists cl1 of
              None \<Rightarrow> Inl (TypeError ''Cannot read properties of undefined'', cl1)
            | Some sls \<Rightarrow>
                listLinesLoop entityName cl1
                  (if list_ex (hasForm normalizedValue) sls then OldNV normalizedValue
                   else NewNV \<lparr>canonicalForm = normalizedValue, list = []\<rparr>)
                  ls)
      else
        (case synonymItems entityName line cl nv (map trim (splitOn isCommaOrSemicolon line)) of
           Inl err \<Rightarrow> Inl err
         | Inr (cl1, nv1) \<Rightarrow> listLinesLoop entityName cl1 nv1 ls))"

text \<open>
  A closed list that is already in the collection is changed in place, so what the
  loop did before it threw stays; a new one is pushed only at the end.
\<close>

definition handleClosedList ::
  "parsedContent \<Rightarrow> string \<Rightarrow> string list \<Rightarrow> string list \<Rightarrow> unit result" where
  "handleClosedList s entityName listLines entityRoles =
     (case VerifyAndUpdateSimpleEntityCollection s entityName ''List'' of
        (Inl err, s1) \<Rightarrow> (Inl err, s1)
      | (Inr rolesImport, s1) \<Rightarrow>
          (let entityRoles1 = pushMissing entityRoles rolesImport;
               found = find (hasName entityName) (closedLists s1);
               addCL = (found = None);
               closedListExists = (case found of
                                     None \<Rightarrow> newClosedLists entityName [] []
                                   | Some cl \<Rightarrow> cl);
               store = (\<lambda>cl. if addCL then s1
                              else s1\<lparr>closedLists :=
                                       updateFirst (hasName entityName) (\<lambda>item. cl) (closedLists s1)\<rparr>)
           in case listLinesLoop entityName closedListExists NoNV listLines of
                Inl (err, cl) \<Rightarrow> (Inl err, store cl)
              | Inr (cl, nv) \<Rightarrow>
                  (let cl1 = closeSubList cl nv;
                       cl2 = cl1\<lparr>roles := pushMissing (roles cl1) entityRoles1\<rparr>
                   in (Inr (),
                       if addCL then s1\<lparr>closedLists := closedLists s1 @ [cl2]\<rparr>
                       else s1\<lparr>closedLists :=
                                 updateFirst (hasName entityName) (\<lambda>item. cl2) (closedLists s1)\<rparr>))))"

section \<open>The helper module\<close>

text \<open>
  The module \<open>helpers\<close> and the constants of the parser are not part of the sources
  at hand; the section handlers take what they use of them as a parameter:
  whether an utterance is a link reference, the file such a link names (or the error
  parsing it throws), whether an utterance is a pattern, the roles and the type a
  legacy type text carries, and the marker of a word-alterations list.
\<close>

record helpers =
  isUtteranceLinkRef :: "string \<Rightarrow> bool"
  parseLinkURI :: "string \<Rightarrow> error + string"
  isUtterancePattern :: "string \<Rightarrow> bool"
  getRolesAndType :: "string \<Rightarrow> string list \<times> string"
  QNAALTERATIONS :: string

text \<open>
  Modelled from the spec: \<open>helpers.filterMatch\<close> is not part of the sources at hand;
  finding the existing records of the same name, it returns the items whose property
  equals the value looked for.
\<close>

definition filterMatch :: "('a \<Rightarrow> string) \<Rightarrow> string \<Rightarrow> 'a list \<Rightarrow> 'a list" where
  "filterMatch property searchValue srcList = filter (\<lambda>item. property item = searchValue) srcList"

section \<open>The intent section\<close>

text \<open>
  A label of an utterance as the front end hands it over: the entity, its role if it
  has one, the collection the front end typed it with (pattern-any for a placeholder
  without a value, simple otherwise), the labelled text and its offsets.
\<close>

record parserEntity = utteranceEntity +
  ptype :: LUISObjNameEnum
  pvalue :: string

record utteranceAndEntities =
  utterance :: string
  entitiesFound :: "parserEntity list"
  contextText :: string

record intentSection =
  IName :: string
  UtteranceAndEntitiesMap :: "utteranceAndEntities list"

text \<open>
  The entries of the flat list are read by name, type and roles; \<open>handleAtPrefix\<close>
  first looks for an entry whose property \<open>entityName\<close> is the entity, a property the
  entries do not have.
\<close>

definition entityNameProperty :: "entityAndRoles \<Rightarrow> string option" where
  "entityNameProperty item = None"

definition handleAtPrefix :: "parserEntity \<Rightarrow> entityAndRoles list option \<Rightarrow> parserEntity" where
  "handleAtPrefix e flatEntityAndRoles =
     (if prefix ''@'' (entity e)
      then
        (let e1 = e\<lparr>entity := trim (tl (entity e))\<rparr> in
         case flatEntityAndRoles of
           None \<Rightarrow> e1
         | Some fl \<Rightarrow>
             (case find (\<lambda>item. entityNameProperty item = Some (entity e1)) fl of
                Some entityMatch \<Rightarrow> e1
              | None \<Rightarrow>
                  (case find (\<lambda>item. entity e1 \<in> set (roles item)) fl of
                     Some roleMatch \<Rightarrow> e1\<lparr>entity := name roleMatch, role := Some (entity e1)\<rparr>
                   | None \<Rightarrow> e1)))
      else e)"

text \<open>
  \<open>String.replace\<close> with a text to look for replaces its first occurrence; in the
  replacement a dollar sign followed by a dollar sign, an ampersand, a backquote or a
  quote stands for a dollar sign, the text found, what precedes it and what follows it.
\<close>

fun splitAtFirst :: "string \<Rightarrow> string \<Rightarrow> (string \<times> string) option" where
  "splitAtFirst pat [] = (if pat = [] then Some ([], []) else None)"
| "splitAtFirst pat (c # cs) =
     (if prefix pat (c # cs) then Some ([], drop (length pat) (c # cs))
      else map_option (\<lambda>(b, a). (c # b, a)) (splitAtFirst pat cs))"

fun getSubstitution :: "string \<Rightarrow> string \<Rightarrow> string \<Rightarrow> string \<Rightarrow> string" where
  "getSubstitution matched before after [] = []"
| "getSubstitution matched before after [c] = [c]"
| "getSubstitution matched before after (c # d # r) =
     (if c = CHR ''$'' \<and> d = CHR ''$'' then CHR ''$'' # getSubstitution matched before after r
      else if c = CHR ''$'' \<and> d = CHR ''&'' then matched @ getSubstitution matched before after r
      else if c = CHR ''$'' \<and> d = CHR 0x60 then before @ getSubstitution matched before after r
      else if c = CHR ''$'' \<and> d = CHR 0x27 then after @ getSubstitution matched before after r
      else c # getSubstitution matched before after (d # r))"

definition replaceFirstText :: "string \<Rightarrow> string \<Rightarrow> string \<Rightarrow> string" where
  "replaceFirstText pat rep t =
     (case splitAtFirst pat t of
        None \<Rightarrow> t
      | Some (before, after) \<Rightarrow> before @ getSubstitution pat before after rep @ after)"

text \<open>\<open>replace(/{@/g, '{')\<close>.\<close>

fun dropAtAfterBrace :: "string \<Rightarrow> string" where
  "dropAtAfterBrace [] = []"
| "dropAtAfterBrace [c] = [c]"
| "dropAtAfterBrace (c # d # r) =
     (if c = CHR ''{'' \<and> d = CHR ''@'' then CHR ''{'' # dropAtAfterBrace r
      else c # dropAtAfterBrace (d # r))"

text \<open>
  The loop of \<open>handleAtForPattern\<close>: a label whose entity starts with an at sign is
  resolved in place, and where it then has an entity and a role the placeholder of the
  role is rewritten.
\<close>

fun resolveAtLabels ::
  "entityAndRoles list option \<Rightarrow> string \<Rightarrow> parserEntity list \<Rightarrow> string \<times> parserEntity list" where
  "resolveAtLabels fl u [] = (u, [])"
| "resolveAtLabels fl u (e # es) =
     (if prefix ''@'' (entity e)
      then
        (let e1 = handleAtPrefix e fl;
             u1 = (if entity e1 \<noteq> [] \<and> truthyText (role e1)
                   then replaceFirstText (''{'' @ the (role e1) @ ''}'')
                          (''{'' @ entity e1 @ '':'' @ the (role e1) @ ''}'') u
                   else u)
         in case resolveAtLabels fl u1 es of (u2, es2) \<Rightarrow> (u2, e1 # es2))
      else (case resolveAtLabels fl u es of (u2, es2) \<Rightarrow> (u2, e # es2)))"

definition handleAtForPattern ::
  "string \<Rightarrow> parserEntity list \<Rightarrow> entityAndRoles list option \<Rightarrow> string \<times> parserEntity list" where
  "handleAtForPattern u es flatEntityAndRoles =
     (if sublist ''{@'' u then resolveAtLabels flatEntityAndRoles (dropAtAfterBrace u) es
      else (u, es))"

definition mixedLabelsMsg :: "string \<Rightarrow> string" where
  "mixedLabelsMsg ctx =
     ''Utterance '' @ dq @ ctx @ dq
       @ '' has mix of entites with labelled values and ones without. Please update utterance to either include labelled values for all entities or remove labelled values from all entities.''"

definition roleOf :: "parserEntity \<Rightarrow> string list" where
  "roleOf e = [trim (the (role e))]"

text \<open>
  A label of a pattern: its role goes to the entity of that name in each collection
  that has one; an entity no collection has becomes a pattern-any entity.
\<close>

definition addPatternLabel :: "parsedContent \<Rightarrow> parserEntity \<Rightarrow> parsedContent" where
  "addPatternLabel s e =
     (let simpleEntityInMaster = list_ex (hasName (entity e)) (entities s);
          s1 = (if simpleEntityInMaster \<and> truthyText (role e)
                then addItemOrRoleIfNotPresent s ENTITIES (entity e) (roleOf e) else s);
          compositeInMaster = list_ex (hasName (entity e)) (composites s1);
          s2 = (if compositeInMaster \<and> truthyText (role e)
                then addItemOrRoleIfNotPresent s1 COMPOSITES (entity e) (roleOf e) else s1);
          listEntityInMaster = list_ex (hasName (entity e)) (closedLists s2);
          s3 = (if listEntityInMaster \<and> truthyText (role e)
                then addItemOrRoleIfNotPresent s2 CLOSEDLISTS (entity e) (roleOf e) else s2);
          regexEntityInMaster = list_ex (hasName (entity e)) (regex_entities s3);
          s4 = (if regexEntityInMaster \<and> truthyText (role e)
                then addItemOrRoleIfNotPresent s3 REGEX (entity e) (roleOf e) else s3);
          prebuiltInMaster = list_ex (hasName (entity e)) (prebuiltEntities s4);
          s5 = (if prebuiltInMaster \<and> truthyText (role e)
                then addItemOrRoleIfNotPresent s4 PREBUILT (entity e) (roleOf e) else s4)
      in if \<not> simpleEntityInMaster \<and> \<not> compositeInMaster \<and> \<not> listEntityInMaster
            \<and> \<not> regexEntityInMaster \<and> \<not> prebuiltInMaster
         then (if truthyText (role e)
               then addItemOrRoleIfNotPresent s5 PATTERNANYENTITY (entity e) (roleOf e)
               else addItemIfNotPresent s5 PATTERNANYENTITY (entity e))
         else s5)"

definition phraseListLabelMsg :: "string \<Rightarrow> string \<Rightarrow> string" where
  "phraseListLabelMsg u n =
     ''Utterance '' @ dq @ u @ dq @ '' has invalid reference to Phrase List entity '' @ dq @ n @ dq
       @ ''. Phrase list entities cannot be given an explicit labelled value.''"

definition needsRoleMsg :: "string \<Rightarrow> string \<Rightarrow> string" where
  "needsRoleMsg n kind =
     n @ '' has been defined as a '' @ kind
       @ '' entity type. It cannot be explicitly included in a labelled utterance unless the label includes a role.''"

text \<open>
  A label of an utterance without pattern-any labels, resolved against the
  collections in their order; the label is returned as \<open>handleAtPrefix\<close> left it.
\<close>

definition addUtteranceLabel :: "parsedContent \<Rightarrow> string \<Rightarrow> parserEntity \<Rightarrow> parserEntity result" where
  "addUtteranceLabel s u e0 =
     (let e = handleAtPrefix e0 (flatListOfEntityAndRoles s) in
      if list_ex (hasName (entity e)) (model_features s)
         \<and> entity e \<notin> set (map name (entities s) @ map name (prebuiltEntities s)
                              @ map name (closedLists s) @ map name (regex_entities s)
                              @ map name (model_features s) @ map name (composites s))
      then (Inl (Exception INVALID_INPUT (phraseListLabelMsg u (entity e))), s)
      else if list_ex (hasName (entity e)) (composites s)
      then (Inr e, if truthyText (role e)
                   then addItemOrRoleIfNotPresent s COMPOSITES (entity e) (roleOf e) else s)
      else if list_ex (hasName (entity e)) (closedLists s)
      then (if truthyText (role e)
            then (Inr e, addItemOrRoleIfNotPresent s CLOSEDLISTS (entity e) (roleOf e))
            else (Inl (Exception INVALID_INPUT (needsRoleMsg (entity e) ''LIST'')), s))
      else if list_ex (hasName (entity e)) (prebuiltEntities s)
      then (if truthyText (role e)
            then (Inr e, addItemOrRoleIfNotPresent s PREBUILT (entity e) (roleOf e))
            else (Inl (Exception INVALID_INPUT (needsRoleMsg (entity e) ''PREBUILT'')), s))
      else if list_ex (hasName (entity e)) (regex_entities s)
      then (if truthyText (role e)
            then (Inr e, addItemOrRoleIfNotPresent s REGEX (entity e) (roleOf e))
            else (Inl (Exception INVALID_INPUT (needsRoleMsg (entity e) ''Regex'')), s))
      else
        case find (hasName (entity e)) (patternAnyEntities s) of
          Some patternAnyExists \<Rightarrow>
            if pvalue e \<noteq> []
            then
              (let rs = (if truthyText (role e) \<and> trim (the (role e)) \<noteq> [] then roleOf e else [])
                        @ roles patternAnyExists;
                   s1 = addItemOrRoleIfNotPresent s ENTITIES (entity e) rs
               in (Inr e,
                   s1\<lparr>patternAnyEntities := removeFirst (hasName (entity e)) (patternAnyEntities s1)\<rparr>))
            else if truthyText (role e)
            then (Inr e, addItemOrRoleIfNotPresent s PATTERNANYENTITY (entity e) (roleOf e))
            else (Inr e, s)
        | None \<Rightarrow>
            if truthyText (role e)
            then (Inr e, addItemOrRoleIfNotPresent s ENTITIES (entity e) (roleOf e))
            else (Inr e, addItemIfNotPresent s ENTITIES (entity e)))"

fun addUtteranceLabels ::
  "parsedContent \<Rightarrow> string \<Rightarrow> parserEntity list \<Rightarrow> parserEntity list result" where
  "addUtteranceLabels s u [] = (Inr [], s)"
| "addUtteranceLabels s u (e # es) =
     (case addUtteranceLabel s u e of
        (Inl err, s1) \<Rightarrow> (Inl err, s1)
      | (Inr e1, s1) \<Rightarrow>
          (case addUtteranceLabels s1 u es of
             (Inl err, s2) \<Rightarrow> (Inl err, s2)
           | (Inr es1, s2) \<Rightarrow> (Inr (e1 # es1), s2)))"

definition noLabelledValueMsg :: "string \<Rightarrow> string \<Rightarrow> string" where
  "noLabelledValueMsg n ctx =
     ''No labelled value found for entity: '' @ dq @ n @ dq @ '' in utterance: '' @ dq @ ctx @ dq"

text \<open>
  The labels are pushed onto the utterance one by one; a label whose start lies behind
  its end throws, and what was pushed before it stays on the utterance.
\<close>

fun pushLabels ::
  "string \<Rightarrow> uttereances \<Rightarrow> parserEntity list \<Rightarrow> (error \<times> uttereances) + uttereances" where
  "pushLabels ctx obj [] = Inr obj"
| "pushLabels ctx obj (item # items) =
     (if startPos item > endPos item
      then Inl (Exception MISSING_LABELLED_VALUE (noLabelledValueMsg (entity item) ctx), obj)
      else pushLabels ctx
             (obj\<lparr>uentities := uentities obj
                    @ [\<lparr>entity = entity item, startPos = startPos item, endPos = endPos item,
                        role = (if truthyText (role item) then Some (trim (the (role item))) else None)\<rparr>]\<rparr>)
             items)"

definition sameUtterance :: "string \<Rightarrow> string \<Rightarrow> uttereances \<Rightarrow> bool" where
  "sameUtterance u intentName item = (utext item = u \<and> intent item = intentName)"

definition addLabelledUtterance ::
  "parsedContent \<Rightarrow> string \<Rightarrow> string \<Rightarrow> string \<Rightarrow> parserEntity list \<Rightarrow> unit result" where
  "addLabelledUtterance s u intentName ctx es =
     (case find (sameUtterance u intentName) (utterances s) of
        Some utteranceExists \<Rightarrow>
          (case pushLabels ctx utteranceExists es of
             Inl (err, obj) \<Rightarrow>
               (Inl err,
                s\<lparr>utterances := updateFirst (sameUtterance u intentName) (\<lambda>item. obj) (utterances s)\<rparr>)
           | Inr obj \<Rightarrow>
               (Inr (),
                s\<lparr>utterances := updateFirst (sameUtterance u intentName) (\<lambda>item. obj) (utterances s)\<rparr>))
      | None \<Rightarrow>
          (case pushLabels ctx \<lparr>utext = u, intent = intentName, uentities = []\<rparr> es of
             Inl (err, obj) \<Rightarrow> (Inl err, s)
           | Inr obj \<Rightarrow> (Inr (), s\<lparr>utterances := utterances s @ [obj]\<rparr>)))"

text \<open>An utterance that is a link reference names a further file to parse.\<close>

definition addLinkReference :: "helpers \<Rightarrow> parsedContent \<Rightarrow> string \<Rightarrow> error + parsedContent" where
  "addLinkReference H s u =
     (if isUtteranceLinkRef H u
      then (case parseLinkURI H u of
              Inl err \<Rightarrow> Inl err
            | Inr luFile \<Rightarrow>
                Inr (s\<lparr>additionalFilesToParse := additionalFilesToParse s @ [luFile]\<rparr>))
      else Inr s)"

text \<open>One utterance line of an intent.\<close>

definition handleUtterance ::
  "helpers \<Rightarrow> parsedContent \<Rightarrow> string \<Rightarrow> utteranceAndEntities \<Rightarrow> unit result" where
  "handleUtterance H s intentName uae =
     (let u = trim (utterance uae) in
      case addLinkReference H s u of
        Inl err \<Rightarrow> (Inl err, s)
      | Inr s0 \<Rightarrow>
          if entitiesFound uae \<noteq> []
          then
            (if list_ex (\<lambda>item. ptype item = PATTERNANYENTITY) (entitiesFound uae)
             then
               (case handleAtForPattern u (entitiesFound uae) (flatListOfEntityAndRoles s0) of
                  (u1, es1) \<Rightarrow>
                    if filter (\<lambda>item. ptype item \<noteq> PATTERNANYENTITY) es1 \<noteq> []
                    then (Inl (Exception INVALID_INPUT (mixedLabelsMsg (contextText uae))), s0)
                    else
                      (let newPattern = \<lparr>pattern = u1, pintent = intentName\<rparr>;
                           s1 = (if newPattern \<in> set (patterns s0) then s0
                                 else s0\<lparr>patterns := patterns s0 @ [newPattern]\<rparr>)
                       in (Inr (), foldl addPatternLabel s1 es1)))
             else
               (case addUtteranceLabels s0 u (entitiesFound uae) of
                  (Inl err, s1) \<Rightarrow> (Inl err, s1)
                | (Inr es1, s1) \<Rightarrow> addLabelledUtterance s1 u intentName (contextText uae) es1))
          else if isUtterancePattern H u
          then (Inr (), s0\<lparr>patterns := patterns s0 @ [\<lparr>pattern = u, pintent = intentName\<rparr>]\<rparr>)
          else if list_ex (sameUtterance u intentName) (utterances s0) then (Inr (), s0)
          else (Inr (),
                s0\<lparr>utterances := utterances s0 @ [\<lparr>utext = u, intent = intentName, uentities = []\<rparr>]\<rparr>))"

fun handleUtterances ::
  "helpers \<Rightarrow> parsedContent \<Rightarrow> string \<Rightarrow> utteranceAndEntities list \<Rightarrow> unit result" where
  "handleUtterances H s intentName [] = (Inr (), s)"
| "handleUtterances H s intentName (uae # rest) =
     (case handleUtterance H s intentName uae of
        (Inl err, s1) \<Rightarrow> (Inl err, s1)
      | (Inr v, s1) \<Rightarrow> handleUtterances H s1 intentName rest)"

fun parseAndHandleIntent :: "helpers \<Rightarrow> parsedContent \<Rightarrow> intentSection list \<Rightarrow> unit result" where
  "parseAndHandleIntent H s [] = (Inr (), s)"
| "parseAndHandleIntent H s (i # rest) =
     (case handleUtterances H (addIntentIfNotPresent s (IName i)) (IName i)
             (UtteranceAndEntitiesMap i) of
        (Inl err, s1) \<Rightarrow> (Inl err, s1)
      | (Inr v, s1) \<Rightarrow> parseAndHandleIntent H s1 rest)"

section \<open>The legacy entity definitions\<close>

record legacyEntity =
  Name :: string
  Type :: string
  SynonymsOrPhraseList :: "string list"

definition alterationMsg :: "string \<Rightarrow> string" where
  "alterationMsg alterationlist =
     ''QnA alteration section: '' @ dq @ alterationlist @ dq
       @ '' does not have list decoration. Prefix line with '' @ dq @ ''-'' @ dq @ '' or '' @ dq
       @ ''+'' @ dq @ '' or '' @ dq @ ''*'' @ dq"

text \<open>A legacy definition of a list: one normalized value with its synonyms.\<close>

definition handleLegacyList ::
  "helpers \<Rightarrow> parsedContent \<Rightarrow> legacyEntity \<Rightarrow> string \<Rightarrow> string list \<Rightarrow> unit result" where
  "handleLegacyList H s e entityType0 entityRoles0 =
     (let entityName = Name e;
          entityType = snd (getRolesAndType H entityType0);
          entityRoles1 = pushMissing entityRoles0 (fst (getRolesAndType H entityType0))
      in case VerifyAndUpdateSimpleEntityCollection s entityName ''List'' of
           (Inl err, s1) \<Rightarrow> (Inl err, s1)
         | (Inr rolesImport, s1) \<Rightarrow>
             (let entityRoles = pushMissing entityRoles1 rolesImport;
                  normalizedValue = trim (butlast entityType);
                  synonymsList = SynonymsOrPhraseList e
              in case filterMatch name entityName (closedLists s1) of
                   [] \<Rightarrow>
                     (Inr (),
                      s1\<lparr>closedLists :=
                           closedLists s1
                           @ [newClosedLists entityName
                                [\<lparr>canonicalForm = normalizedValue, list = synonymsList\<rparr>] entityRoles]\<rparr>)
                 | cl # others \<Rightarrow>
                     (case subLists cl of
                        None \<Rightarrow> (Inl (TypeError ''Cannot read properties of undefined''), s1)
                      | Some sls \<Rightarrow>
                          (let sls1 = (if filterMatch canonicalForm normalizedValue sls = []
                                       then sls @ [\<lparr>canonicalForm = normalizedValue, list = synonymsList\<rparr>]
                                       else updateFirst (hasForm normalizedValue)
                                              (\<lambda>sl. sl\<lparr>list := pushMissing (list sl) synonymsList\<rparr>) sls)
                           in (Inr (),
                               s1\<lparr>closedLists :=
                                    updateFirst (hasName entityName)
                                      (\<lambda>item. item\<lparr>subLists := Some sls1,
                                                    roles := mergeRoles (roles item) entityRoles\<rparr>)
                                      (closedLists s1)\<rparr>)))))"

text \<open>
  The branch a legacy definition takes, for the roles collected so far. A regular
  expression that lacks its closing slash is reported through \<open>regExEntity.name\<close>, a
  name that is not in scope there: what is thrown is a \<open>ReferenceError\<close>.
\<close>

definition dispatchEntity ::
  "helpers \<Rightarrow> builtInTypes \<Rightarrow> bool \<Rightarrow> string option \<Rightarrow> parsedContent \<Rightarrow> legacyEntity
     \<Rightarrow> string \<Rightarrow> string list \<Rightarrow> unit result" where
  "dispatchEntity H B log locale s1 e entityType entityRoles =
     (let entityName = Name e in
      if entityType \<in> set (consolidatedList B)
      then handlePrebuiltEntity B s1 entityName entityType entityRoles locale log
      else if toLowerCase entityType = ''simple''
      then (Inr (), addItemOrRoleIfNotPresent s1 ENTITIES entityName entityRoles)
      else if suffix ''='' entityType
      then
        (if sublist (QNAALTERATIONS H) entityType
         then
           (if SynonymsOrPhraseList e \<noteq> []
            then (Inr (),
                  s1\<lparr>wordAlterations :=
                       wordAlterations s1 @ [Name e # SynonymsOrPhraseList e]\<rparr>)
            else (Inl (Exception SYNONYMS_NOT_A_LIST (alterationMsg (Name e))), s1))
         else handleLegacyList H s1 e entityType entityRoles)
      else if prefix ''phraselist'' (trim (toLowerCase entityType))
      then handlePhraseList s1 entityName (Some entityType) entityRoles (SynonymsOrPhraseList e)
      else if prefix ''['' entityType
      then handleComposite s1 entityName entityType entityRoles True
      else if prefix ''/'' entityType
      then
        (if suffix ''/'' entityType
         then handleRegExEntity s1 entityName (Some entityType) entityRoles
         else (Inl (ReferenceError ''regExEntity is not defined''), s1))
      else (Inr (), s1))"

text \<open>
  The name under which a legacy definition may be held as a pattern-any entity: the
  type for a definition named \<open>prebuilt\<close>, the name otherwise.
\<close>

definition pEntityNameOf :: "helpers \<Rightarrow> legacyEntity \<Rightarrow> string" where
  "pEntityNameOf H e =
     (if toLowerCase (Name e) = ''prebuilt'' then snd (getRolesAndType H (Type e)) else Name e)"

text \<open>One turn of the loop of \<open>parseAndHandleEntity\<close>.\<close>

definition handleEntity ::
  "helpers \<Rightarrow> builtInTypes \<Rightarrow> bool \<Rightarrow> string option \<Rightarrow> parsedContent \<Rightarrow> legacyEntity \<Rightarrow> unit result" where
  "handleEntity H B log locale s e =
     (let entityRoles0 = fst (getRolesAndType H (Type e));
          entityType = snd (getRolesAndType H (Type e))
      in case RemoveDuplicatePatternAnyEntity s (pEntityNameOf H e) entityType of
           (Inl err, s1) \<Rightarrow> (Inl err, s1)
         | (Inr PAEntityRoles, s1) \<Rightarrow>
             dispatchEntity H B log locale s1 e entityType (pushMissing entityRoles0 PAEntityRoles))"

fun parseAndHandleEntity ::
  "helpers \<Rightarrow> builtInTypes \<Rightarrow> bool \<Rightarrow> string option \<Rightarrow> parsedContent \<Rightarrow> legacyEntity list
     \<Rightarrow> unit result" where
  "parseAndHandleEntity H B log locale s [] = (Inr (), s)"
| "parseAndHandleEntity H B log locale s (e # rest) =
     (case handleEntity H B log locale s e of
        (Inl err, s1) \<Rightarrow> (Inl err, s1)
      | (Inr u, s1) \<Rightarrow> parseAndHandleEntity H B log locale s1 rest)"

section \<open>The new entity definitions\<close>

text \<open>
  The names of the entity types (\<open>EntityTypeEnum\<close>) are not part of the sources at
  hand; the section handler takes them as a parameter and compares a declared type
  with them in the order of its \<open>switch\<close>.
\<close>

record EntityTypeEnum =
  T_SIMPLE :: string
  T_COMPOSITE :: string
  T_LIST :: string
  T_PATTERNANY :: string
  T_PREBUILT :: string
  T_REGEX :: string
  T_MACHINE_LEARNED :: string
  T_PHRASELIST :: string

text \<open>
  A new entity as the front end hands it over: its name, and the type, the roles and
  the definitions its line may carry (\<open>None\<close> for a property that is undefined); the
  body is an array of lines.
\<close>

record newEntity =
  Name :: string
  Type :: "string option"
  Roles :: "string option"
  CompositeDefinition :: "string option"
  ListBody :: "string list"
  RegexDefinition :: "string option"

definition getEntityType :: "string \<Rightarrow> newEntity list \<Rightarrow> string option" where
  "getEntityType entityName es =
     (case find (\<lambda>item. Name item = entityName) es of
        None \<Rightarrow> None
      | Some entityFound \<Rightarrow> Type entityFound)"

definition isQuote :: "char \<Rightarrow> bool" where
  "isQuote c = (c = CHR 0x27 \<or> c = CHR 0x22)"

text \<open>\<open>replace(/^[\'\"]|[\'\"]$/g, "")\<close>: a quote in front and a quote at the end go.\<close>

definition stripQuotes :: "string \<Rightarrow> string" where
  "stripQuotes n =
     (let t = (case n of [] \<Rightarrow> [] | c # cs \<Rightarrow> if isQuote c then cs else n)
      in if t \<noteq> [] \<and> isQuote (last t) then butlast t else t)"

definition noTypeMsg :: "string \<Rightarrow> string" where
  "noTypeMsg entityName = ''No type definition found for entity '' @ dq @ entityName @ dq"

definition nameIsTypeMsg :: "string \<Rightarrow> string \<Rightarrow> string" where
  "nameIsTypeMsg entityName entityType =
     ''Entity name '' @ dq @ entityName @ dq @ '' cannot be the same as entity type '' @ dq
       @ entityType @ dq"

definition isBracket :: "char \<Rightarrow> bool" where
  "isBracket c = (c = CHR ''['' \<or> c = CHR '']'')"

definition childrenOfText :: "string \<Rightarrow> string list" where
  "childrenOfText t = map trim (splitOn isCommaOrSemicolon (filter (\<lambda>c. \<not> isBracket c) t))"

definition candidateChildren :: "newEntity \<Rightarrow> string list" where
  "candidateChildren e =
     (if truthyText (CompositeDefinition e) then childrenOfText (the (CompositeDefinition e)) else [])
     @ concat (map childrenOfText (ListBody e))"

text \<open>The handler the \<open>switch\<close> on the type selects, for the roles collected so far.\<close>

definition dispatchEntityV2 ::
  "EntityTypeEnum \<Rightarrow> builtInTypes \<Rightarrow> bool \<Rightarrow> string option \<Rightarrow> parsedContent \<Rightarrow> newEntity
     \<Rightarrow> string \<Rightarrow> string \<Rightarrow> string list \<Rightarrow> unit result" where
  "dispatchEntityV2 E B log locale s e entityName entityType entityRoles =
     (if entityType = T_SIMPLE E
      then (Inr (), addItemOrRoleIfNotPresent s ENTITIES entityName entityRoles)
      else if entityType = T_COMPOSITE E
      then handleComposite s entityName (''['' @ joinWith '','' (candidateChildren e) @ '']'')
             entityRoles False
      else if entityType = T_LIST E
      then handleClosedList s entityName (ListBody e) entityRoles
      else if entityType = T_PATTERNANY E
      then handlePatternAny s entityName entityRoles
      else if entityType = T_PREBUILT E
      then handlePrebuiltEntity B s ''prebuilt'' entityName entityRoles locale log
      else if entityType = T_REGEX E
      then (case ListBody e of
              l # ls \<Rightarrow>
                if l \<noteq> [] then handleRegExEntity s entityName (Some l) entityRoles
                else handleRegExEntity s entityName (RegexDefinition e) entityRoles
            | [] \<Rightarrow> handleRegExEntity s entityName (RegexDefinition e) entityRoles)
      else if entityType = T_MACHINE_LEARNED E
      then (Inr (), s)
      else if entityType = T_PHRASELIST E
      then handlePhraseList s entityName None entityRoles (ListBody e)
      else (Inr (), s))"

text \<open>The type of a new entity: its own, or else that of the first entity of its name.\<close>

definition declaredType :: "newEntity list \<Rightarrow> newEntity \<Rightarrow> string option" where
  "declaredType es e = (if truthyText (Type e) then Type e else getEntityType (Name e) es)"

text \<open>One turn of the loop of \<open>parseAndHandleEntityV2\<close>, for the entity \<open>e\<close> of the section \<open>es\<close>.\<close>

definition handleEntityV2 ::
  "EntityTypeEnum \<Rightarrow> builtInTypes \<Rightarrow> bool \<Rightarrow> string option \<Rightarrow> newEntity list \<Rightarrow> parsedContent
     \<Rightarrow> newEntity \<Rightarrow> unit result" where
  "handleEntityV2 E B log locale es s e =
     (let entityName = stripQuotes (Name e);
          declared = declaredType es e
      in if \<not> truthyText declared
         then (Inl (Exception INVALID_INPUT (noTypeMsg entityName)), s)
         else
           (let entityType = the declared in
            if entityType = entityName
            then (Inl (Exception INVALID_INPUT (nameIsTypeMsg entityName entityType)), s)
            else
              case validateAndGetRoles s (Roles e) entityName entityType of
                (Inl err, s1) \<Rightarrow> (Inl err, s1)
              | (Inr entityRoles, s1) \<Rightarrow>
                  (case RemoveDuplicatePatternAnyEntity s1 entityName entityType of
                     (Inl err, s2) \<Rightarrow> (Inl err, s2)
                   | (Inr PAEntityRoles, s2) \<Rightarrow>
                       dispatchEntityV2 E B log locale s2 e entityName entityType
                         (pushMissing entityRoles PAEntityRoles))))"

fun parseAndHandleEntityV2 ::
  "EntityTypeEnum \<Rightarrow> builtInTypes \<Rightarrow> bool \<Rightarrow> string option \<Rightarrow> newEntity list \<Rightarrow> parsedContent
     \<Rightarrow> newEntity list \<Rightarrow> unit result" where
  "parseAndHandleEntityV2 E B log locale es s [] = (Inr (), s)"
| "parseAndHandleEntityV2 E B log locale es s (e # rest) =
     (case handleEntityV2 E B log locale es s e of
        (Inl err, s1) \<Rightarrow> (Inl err, s1)
      | (Inr u, s1) \<Rightarrow> parseAndHandleEntityV2 E B log locale es s1 rest)"

section \<open>States and predicates used in the statements\<close>

text \<open>A parsed content with nothing in it, from which the examples start.\<close>

definition blankContent :: parsedContent where
  "blankContent =
     \<lparr>intents = [], entities = [], composites = [], closedLists = [], regex_entities = [],
      prebuiltEntities = [], patternAnyEntities = [], model_features = [], utterances = [],
      patterns = [], flatListOfEntityAndRoles = None, additionalFilesToParse = [],
      wordAlterations = []\<rparr>"

text \<open>The entries of the flat list, none while the list is undefined.\<close>

definition flatOf :: "parsedContent \<Rightarrow> entityAndRoles list" where
  "flatOf s = (case flatListOfEntityAndRoles s of None \<Rightarrow> [] | Some fl \<Rightarrow> fl)"

text \<open>What a handler threw, if it threw one of the parser's exceptions.\<close>

definition thrownCode :: "error + 'a \<Rightarrow> errorCode option" where
  "thrownCode r = (case r of Inl (Exception code msg) \<Rightarrow> Some code | _ \<Rightarrow> None)"

text \<open>No two records of a collection have the same name.\<close>

definition uniqueNames :: "'a namedObj_scheme list \<Rightarrow> bool" where
  "uniqueNames xs = distinct (map name xs)"

definition registryUnique :: "parsedContent \<Rightarrow> bool" where
  "registryUnique s =
     (uniqueNames (intents s) \<and> uniqueNames (entities s) \<and> uniqueNames (composites s)
      \<and> uniqueNames (closedLists s) \<and> uniqueNames (regex_entities s)
      \<and> uniqueNames (prebuiltEntities s) \<and> uniqueNames (patternAnyEntities s)
      \<and> uniqueNames (model_features s))"

text \<open>The flat list records the entity with its type and, among its roles, the given ones.\<close>

definition recorded :: "string \<Rightarrow> string \<Rightarrow> string list \<Rightarrow> entityAndRoles list \<Rightarrow> bool" where
  "recorded n ty rs fl =
     list_ex (\<lambda>item. name item = n \<and> etype item = ty \<and> set rs \<subseteq> set (roles item)) fl"

text \<open>A flat list that knows the simple entity \<open>A\<close> with its role \<open>ra\<close>.\<close>

definition flatExample :: parsedContent where
  "flatExample =
     blankContent\<lparr>flatListOfEntityAndRoles :=
       Some [\<lparr>name = ''A'', roles = [''ra''], etype = ''simple''\<rparr>]\<rparr>"

text \<open>A registry with the regular expression entity \<open>r1\<close>, its pattern \<open>abc\<close> and its role \<open>x\<close>.\<close>

definition regexExample :: parsedContent where
  "regexExample = blankContent\<lparr>regex_entities := [regExEntity ''r1'' ''abc'' [''x'']]\<rparr>"

text \<open>A registry with the phrase list \<open>pl1\<close>, not interchangeable, of the words \<open>abc\<close> and \<open>x\<close>.\<close>

definition phraseListExample :: parsedContent where
  "phraseListExample =
     blankContent\<lparr>model_features :=
       [\<lparr>name = ''pl1'', mode = False, words = ''abc,x'', activated = True\<rparr>]\<rparr>"



definition patternAnyAgain :: newEntity where
  "patternAnyAgain =
     \<lparr>Name = ''x'', Type = Some ''patternany'', Roles = Some ''r2'', CompositeDefinition = None,
      ListBody = [], RegexDefinition = None\<rparr>"

text \<open>
  Parameters for the examples: helpers for which no utterance is a link, an utterance
  with a bracket or a parenthesis is a pattern and a legacy type text carries no
  roles; no builtin types; and the names of the entity types as the language
  writes them.
\<close>

definition plainHelpers :: helpers where
  "plainHelpers =
     \<lparr>isUtteranceLinkRef = (\<lambda>u. False), parseLinkURI = (\<lambda>u. Inr u),
      isUtterancePattern = (\<lambda>u. CHR ''['' \<in> set u \<or> CHR ''('' \<in> set u),
      getRolesAndType = (\<lambda>t. ([], t)), QNAALTERATIONS = ''qna-alterations''\<rparr>"

definition noBuiltIns :: builtInTypes where
  "noBuiltIns = \<lparr>consolidatedList = [], perLocaleAvailability = (\<lambda>l. None)\<rparr>"

definition entityTypes :: EntityTypeEnum where
  "entityTypes =
     \<lparr>T_SIMPLE = ''simple'', T_COMPOSITE = ''composite'', T_LIST = ''list'',
      T_PATTERNANY = ''patternany'', T_PREBUILT = ''prebuilt'', T_REGEX = ''regex'',
      T_MACHINE_LEARNED = ''ml'', T_PHRASELIST = ''phraselist''\<rparr>"

text \<open>
  Utterance lines for the examples: a placeholder without a value, typed pattern-any
  by the front end; a label with a value; a line with both, a line with the
  placeholder only, and a line without labels.
\<close>

definition placeholderLabel :: parserEntity where
  "placeholderLabel =
     \<lparr>entity = ''name'', startPos = 3, endPos = 8, role = None, ptype = PATTERNANYENTITY,
      pvalue = []\<rparr>"

definition valueLabel :: parserEntity where
  "valueLabel =
     \<lparr>entity = ''city'', startPos = 10, endPos = 16, role = None, ptype = ENTITIES,
      pvalue = ''Seattle''\<rparr>"

definition mixedLine :: utteranceAndEntities where
  "mixedLine =
     \<lparr>utterance = ''hi {name} Seattle'', entitiesFound = [placeholderLabel, valueLabel],
      contextText = ''- hi {name} {city=Seattle}''\<rparr>"

definition patternLine :: utteranceAndEntities where
  "patternLine =
     \<lparr>utterance = ''hi {name}'', entitiesFound = [placeholderLabel],
      contextText = ''- hi {name}''\<rparr>"

definition optionalLine :: utteranceAndEntities where
  "optionalLine =
     \<lparr>utterance = ''hi [there]'', entitiesFound = [], contextText = ''- hi [there]''\<rparr>"

text \<open>
  The parsed contents that the operations of the parser lead to from the blank one,
  whatever their arguments and their order, and whether or not an operation threw:
  the two exported insertion helpers and the insertion of an intent, the handlers of
  the kinds and the helpers they share, a new entity definition, an utterance line
  and a legacy entity definition.
\<close>

inductive reachable :: "parsedContent \<Rightarrow> bool" where
  blank: "reachable blankContent"
| insertIntent: "reachable s \<Longrightarrow> reachable (addIntentIfNotPresent s v)"
| insertItem: "reachable s \<Longrightarrow> reachable (addItemIfNotPresent s ty v)"
| insertItemOrRole: "reachable s \<Longrightarrow> reachable (addItemOrRoleIfNotPresent s ty v rs)"
| verifySimple: "reachable s \<Longrightarrow> reachable (snd (VerifyAndUpdateSimpleEntityCollection s n t))"
| removePatternAny: "reachable s \<Longrightarrow> reachable (snd (RemoveDuplicatePatternAnyEntity s n t))"
| validateRoles: "reachable s \<Longrightarrow> reachable (snd (validateAndGetRoles s rolesText n t))"
| patternAny: "reachable s \<Longrightarrow> reachable (snd (handlePatternAny s n rs))"
| phraseList: "reachable s \<Longrightarrow> reachable (snd (handlePhraseList s n topt rs ls))"
| prebuilt: "reachable s \<Longrightarrow> reachable (snd (handlePrebuiltEntity B s n t rs locale log))"
| composite: "reachable s \<Longrightarrow> reachable (snd (handleComposite s n t rs inlineChildRequired))"
| regEx: "reachable s \<Longrightarrow> reachable (snd (handleRegExEntity s n topt rs))"
| closedList: "reachable s \<Longrightarrow> reachable (snd (handleClosedList s n ls rs))"
| newDefinition: "reachable s \<Longrightarrow> reachable (snd (handleEntityV2 E B log locale es s e))"
| utteranceLine: "reachable s \<Longrightarrow> reachable (snd (handleUtterance H s intentName uae))"
| legacyDefinition: "reachable s \<Longrightarrow> reachable (snd (handleEntity H B log locale s d))"

section \<open>Properties of the role merge\<close>

lemma mergeRoles_idem: "mergeRoles (mergeRoles a b) b = mergeRoles a b"
  by (auto simp: mergeRoles_def rolesMapHas_def filter_empty_conv)

lemma set_mergeRoles:
  "set b \<inter> set objectPrototypeKeys = {} \<Longrightarrow> set (mergeRoles a b) = set a \<union> set b"
  by (auto simp: mergeRoles_def rolesMapHas_def)

lemma getColl_setColl: "getColl ty (setColl ty xs s) = xs"
  by (cases ty) simp_all

lemma setColl_setColl: "setColl ty xs (setColl ty ys s) = setColl ty xs s"
  by (cases ty) simp_all

text \<open>
  C4. The upsert merges the roles of a declaration into an existing record of the same
  name by \<open>mergeRoles\<close>. A role spelled like a property every object inherits, such as
  \<open>constructor\<close>, is taken to be there already and is not added: here the record
  \<open>s1\<close> with the role \<open>sr1\<close> is declared again with the roles \<open>constructor\<close> and \<open>sr2\<close>,
  and only \<open>sr2\<close> arrives, so the roles after the merge are not the union.
\<close>

theorem upsert_drops_inherited_role:
  "map roles (entities (addItemOrRoleIfNotPresent
      (blankContent\<lparr>entities := [itemObj ENTITIES ''s1'' [''sr1'']]\<rparr>) ENTITIES ''s1''
        [''constructor'', ''sr2'']))
   = [[''sr1'', ''sr2'']]"
  by code_simp

section \<open>Role validation\<close>

lemma find_Some_in: "find P xs = Some x \<Longrightarrow> x \<in> set xs \<and> P x"
  by (induction xs) (auto split: if_splits)

lemma firstRoleFound_None:
  "(firstRoleFound fl rs = None) =
   (\<not> (\<exists>r\<in>set rs. \<exists>item\<in>set fl. r \<in> set (roles item) \<or> name item = r))"
  by (induction rs) (auto simp: find_None_iff split: option.splits dest: find_Some_in)

lemma validate_None:
  "flatListOfEntityAndRoles s = None \<Longrightarrow>
   validateAndGetRoles s rt n ty =
     (Inr (splitRoles rt),
      s\<lparr>flatListOfEntityAndRoles := Some [\<lparr>name = n, roles = splitRoles rt, etype = ty\<rparr>]\<rparr>)"
  by (simp add: validateAndGetRoles_def Let_def)

lemma validate_entityFound:
  "flatListOfEntityAndRoles s = Some fl \<Longrightarrow>
   find (\<lambda>item. nameClash n ty item \<or> n \<in> set (roles item)) fl = Some a \<Longrightarrow>
   validateAndGetRoles s rt n ty = (Inl (Exception INVALID_INPUT (entityFoundMsg n ty a)), s)"
  by (simp add: validateAndGetRoles_def Let_def)

lemma validate_roleFound:
  "flatListOfEntityAndRoles s = Some fl \<Longrightarrow>
   find (\<lambda>item. nameClash n ty item \<or> n \<in> set (roles item)) fl = None \<Longrightarrow>
   firstRoleFound fl (splitRoles rt) = Some a \<Longrightarrow>
   validateAndGetRoles s rt n ty = (Inl (Exception INVALID_INPUT (roleFoundMsg n a)), s)"
  by (simp add: validateAndGetRoles_def Let_def)

lemma validate_ok:
  "flatListOfEntityAndRoles s = Some fl \<Longrightarrow>
   find (\<lambda>item. nameClash n ty item \<or> n \<in> set (roles item)) fl = None \<Longrightarrow>
   firstRoleFound fl (splitRoles rt) = None \<Longrightarrow>
   validateAndGetRoles s rt n ty =
     (Inr (splitRoles rt),
      s\<lparr>flatListOfEntityAndRoles :=
          Some (if list_ex (sameEntity n ty) fl
                then updateFirst (sameEntity n ty) (\<lambda>oldEntity. addRoles oldEntity (splitRoles rt)) fl
                else fl @ [\<lparr>name = n, roles = splitRoles rt, etype = ty\<rparr>])\<rparr>)"
  by (simp add: validateAndGetRoles_def Let_def)

lemma validate_cases:
  obtains (undefined) "flatListOfEntityAndRoles s = None"
      "validateAndGetRoles s rt n ty =
        (Inr (splitRoles rt),
         s\<lparr>flatListOfEntityAndRoles := Some [\<lparr>name = n, roles = splitRoles rt, etype = ty\<rparr>]\<rparr>)"
  | (entityFound) fl a where "flatListOfEntityAndRoles s = Some fl"
      "a \<in> set fl" "(name a = n \<and> etype a \<noteq> ty) \<or> n \<in> set (roles a)"
      "validateAndGetRoles s rt n ty = (Inl (Exception INVALID_INPUT (entityFoundMsg n ty a)), s)"
  | (roleFound) fl a where "flatListOfEntityAndRoles s = Some fl"
      "\<exists>r\<in>set (splitRoles rt). \<exists>item\<in>set fl. r \<in> set (roles item) \<or> name item = r"
      "validateAndGetRoles s rt n ty = (Inl (Exception INVALID_INPUT (roleFoundMsg n a)), s)"
  | (ok) fl where "flatListOfEntityAndRoles s = Some fl"
      "\<not> (\<exists>item\<in>set fl. (name item = n \<and> etype item \<noteq> ty) \<or> n \<in> set (roles item))"
      "\<not> (\<exists>r\<in>set (splitRoles rt). \<exists>item\<in>set fl. r \<in> set (roles item) \<or> name item = r)"
      "validateAndGetRoles s rt n ty =
        (Inr (splitRoles rt),
         s\<lparr>flatListOfEntityAndRoles :=
             Some (if list_ex (sameEntity n ty) fl
                   then updateFirst (sameEntity n ty) (\<lambda>oldEntity. addRoles oldEntity (splitRoles rt)) fl
                   else fl @ [\<lparr>name = n, roles = splitRoles rt, etype = ty\<rparr>])\<rparr>)"
proof (cases "flatListOfEntityAndRoles s")
  case None
  then show ?thesis using undefined validate_None by blast
next
  case (Some fl)
  show ?thesis
  proof (cases "find (\<lambda>item. nameClash n ty item \<or> n \<in> set (roles item)) fl")
    case (Some a)
    from find_Some_in[OF Some] have "a \<in> set fl" "(name a = n \<and> etype a \<noteq> ty) \<or> n \<in> set (roles a)"
      by (simp_all add: nameClash_def)
    then show ?thesis
      using entityFound[OF \<open>flatListOfEntityAndRoles s = Some fl\<close>]
        validate_entityFound[OF \<open>flatListOfEntityAndRoles s = Some fl\<close> Some] by blast
  next
    case None
    then have no1: "\<not> (\<exists>item\<in>set fl. (name item = n \<and> etype item \<noteq> ty) \<or> n \<in> set (roles item))"
      by (simp add: find_None_iff nameClash_def)
    show ?thesis
    proof (cases "firstRoleFound fl (splitRoles rt)")
      case (Some a)
      then have "\<exists>r\<in>set (splitRoles rt). \<exists>item\<in>set fl. r \<in> set (roles item) \<or> name item = r"
        using firstRoleFound_None[of fl "splitRoles rt"] by simp
      then show ?thesis
        using roleFound[OF \<open>flatListOfEntityAndRoles s = Some fl\<close>]
          validate_roleFound[OF \<open>flatListOfEntityAndRoles s = Some fl\<close> None Some] by blast
    next
      case None
      then have "\<not> (\<exists>r\<in>set (splitRoles rt). \<exists>item\<in>set fl. r \<in> set (roles item) \<or> name item = r)"
        using firstRoleFound_None[of fl "splitRoles rt"] by simp
      then show ?thesis
        using ok[OF \<open>flatListOfEntityAndRoles s = Some fl\<close> no1]
          validate_ok[OF \<open>flatListOfEntityAndRoles s = Some fl\<close> \<open>find _ fl = None\<close> None] by blast
    qed
  qed
qed

lemma set_pushMissing: "set (pushMissing a b) = set a \<union> set b"
  unfolding pushMissing_def by (induction b arbitrary: a) auto

lemma recorded_updateFirst:
  "list_ex (sameEntity n ty) fl \<Longrightarrow>
   recorded n ty rs (updateFirst (sameEntity n ty) (\<lambda>oldEntity. addRoles oldEntity rs) fl)"
  by (induction fl) (auto simp: recorded_def sameEntity_def addRoles_def set_pushMissing)

lemma recorded_append: "recorded n ty rs (fl @ [\<lparr>name = n, roles = rs, etype = ty\<rparr>])"
  by (simp add: recorded_def)

text \<open>
  C1. Role validation against the flat list: where the declared name is the name of
  an entry of another type or a role of an entry, or a declared role is a role or the
  name of an entry, \<open>validateAndGetRoles\<close> throws an exception with the code
  \<open>INVALID_INPUT\<close>; whenever it throws, the parsed content and with it the flat list
  is what it was; and when it returns, it returns the declared roles and the flat list
  records the entity with its type and these roles.
\<close>

theorem validateAndGetRoles_disjoint:
  "(((\<exists>item\<in>set (flatOf s). (name item = entityName \<and> etype item \<noteq> entityType)
                              \<or> entityName \<in> set (roles item))
     \<or> (\<exists>r\<in>set (splitRoles rolesText). \<exists>item\<in>set (flatOf s). r \<in> set (roles item) \<or> name item = r))
    \<longrightarrow> (\<exists>msg. validateAndGetRoles s rolesText entityName entityType
                 = (Inl (Exception INVALID_INPUT msg), s)))
   \<and> (\<forall>err. fst (validateAndGetRoles s rolesText entityName entityType) = Inl err
        \<longrightarrow> snd (validateAndGetRoles s rolesText entityName entityType) = s)
   \<and> (\<forall>rs. fst (validateAndGetRoles s rolesText entityName entityType) = Inr rs
        \<longrightarrow> rs = splitRoles rolesText
            \<and> recorded entityName entityType rs
                 (flatOf (snd (validateAndGetRoles s rolesText entityName entityType))))"
proof (cases rule: validate_cases[of s rolesText entityName entityType])
  case undefined
  then show ?thesis by (simp add: flatOf_def recorded_def)
next
  case (entityFound fl a)
  then show ?thesis by simp
next
  case (roleFound fl a)
  then show ?thesis by simp
next
  case (ok fl)
  then show ?thesis
    by (simp add: flatOf_def recorded_updateFirst recorded_append)
qed

theorem validateAndGetRoles_disjoint_witness:
  "(\<exists>msg. validateAndGetRoles flatExample (Some ''A'') ''B'' ''list''
            = (Inl (Exception INVALID_INPUT msg), flatExample))
   \<and> (\<exists>msg. validateAndGetRoles flatExample (Some ''x, ra'') ''B'' ''list''
            = (Inl (Exception INVALID_INPUT msg), flatExample))
   \<and> (\<exists>msg. validateAndGetRoles flatExample None ''A'' ''list''
            = (Inl (Exception INVALID_INPUT msg), flatExample))
   \<and> (\<exists>msg. validateAndGetRoles flatExample None ''ra'' ''list''
            = (Inl (Exception INVALID_INPUT msg), flatExample))
   \<and> recorded ''B'' ''list'' [''rb'']
        (flatOf (snd (validateAndGetRoles flatExample (Some ''rb'') ''B'' ''list'')))"
proof -
  have f: "flatOf flatExample = [\<lparr>name = ''A'', roles = [''ra''], etype = ''simple''\<rparr>]"
    by (simp add: flatOf_def flatExample_def)
  have r1: "splitRoles (Some ''A'') = [''A'']" by code_simp
  have r2: "splitRoles (Some ''x, ra'') = [''x'', ''ra'']" by code_simp
  have r3: "splitRoles None = []" by code_simp
  have r4: "splitRoles (Some ''rb'') = [''rb'']" by code_simp
  have ok: "fst (validateAndGetRoles flatExample (Some ''rb'') ''B'' ''list'') = Inr [''rb'']"
    by code_simp
  show ?thesis
    using validateAndGetRoles_disjoint[of flatExample "''B''" "''list''" "Some ''A''"]
      validateAndGetRoles_disjoint[of flatExample "''B''" "''list''" "Some ''x, ra''"]
      validateAndGetRoles_disjoint[of flatExample "''A''" "''list''" None]
      validateAndGetRoles_disjoint[of flatExample "''ra''" "''list''" None]
      validateAndGetRoles_disjoint[of flatExample "''B''" "''list''" "Some ''rb''"]
    by (simp add: f r1 r2 r3 r4 ok)
qed

section \<open>Regular expression entities\<close>

lemma find_hasName_updateFirst:
  "find (hasName n) xs = Some x \<Longrightarrow> name (f x) = n \<Longrightarrow>
   find (hasName n) (updateFirst (hasName n) f xs) = Some (f x)"
  by (induction xs) (auto simp: hasName_def split: if_splits)

lemma updateFirst_updateFirst:
  "(\<And>x. p (f x) = p x) \<Longrightarrow> updateFirst p g (updateFirst p f xs) = updateFirst p (\<lambda>x. g (f x)) xs"
  by (induction xs) auto

lemma list_ex_find: "list_ex p xs = (find p xs \<noteq> None)"
  by (induction xs) auto

lemma Verify_regex_entities:
  "VerifyAndUpdateSimpleEntityCollection s n ty = (r, s1) \<Longrightarrow> regex_entities s1 = regex_entities s"
  by (auto simp: VerifyAndUpdateSimpleEntityCollection_def Let_def split: option.splits if_splits)

text \<open>
  C6, as the handler has it. Once the shared check of the simple entities and the
  labelled utterances has passed: a definition that is given with nothing between its
  delimiters throws \<open>INVALID_REGEX_ENTITY\<close>; a definition whose pattern differs from the
  pattern, not empty, of the record of that name throws \<open>INVALID_REGEX_ENTITY\<close> too;
  otherwise the handler returns, the record of that name keeps the first pattern that
  is not empty, and the declared roles (with the imported ones) are merged into its
  roles by \<open>mergeRoles\<close>; without a record of that name one is pushed with the
  declared pattern, be it empty, and the roles.
\<close>

theorem handleRegExEntity_patterns:
  assumes V: "VerifyAndUpdateSimpleEntityCollection s n ''RegEx'' = (Inr rolesImport, s1)"
  shows
   "(definitionGiven d \<and> regexOf d = []
       \<longrightarrow> handleRegExEntity s n d rs = (Inl (Exception INVALID_REGEX_ENTITY (emptyRegexMsg n)), s1))
    \<and> (\<forall>found p. find (hasName n) (regex_entities s) = Some found \<and> regexPattern found = Some p
          \<and> p \<noteq> [] \<and> regexOf d \<noteq> [] \<and> p \<noteq> regexOf d
       \<longrightarrow> handleRegExEntity s n d rs
            = (Inl (Exception INVALID_REGEX_ENTITY (multipleRegexMsg n (regexOf d) (Some p))), s1))
    \<and> (\<forall>found p. find (hasName n) (regex_entities s) = Some found \<and> regexPattern found = Some p
          \<and> \<not> (definitionGiven d \<and> regexOf d = []) \<and> (p = [] \<or> regexOf d = [] \<or> p = regexOf d)
       \<longrightarrow> fst (handleRegExEntity s n d rs) = Inr ()
           \<and> find (hasName n) (regex_entities (snd (handleRegExEntity s n d rs)))
              = Some (found\<lparr>roles := mergeRoles (roles found) (pushMissing rs rolesImport),
                            regexPattern := Some (if p = [] then regexOf d else p)\<rparr>))
    \<and> (find (hasName n) (regex_entities s) = None \<and> \<not> (definitionGiven d \<and> regexOf d = [])
       \<longrightarrow> handleRegExEntity s n d rs
            = (Inr (), s1\<lparr>regex_entities := regex_entities s
                             @ [regExEntity n (regexOf d) (pushMissing rs rolesImport)]\<rparr>))"
proof -
  have re: "regex_entities s1 = regex_entities s" using V by (rule Verify_regex_entities)
  have a: "definitionGiven d \<and> regexOf d = []
       \<longrightarrow> handleRegExEntity s n d rs = (Inl (Exception INVALID_REGEX_ENTITY (emptyRegexMsg n)), s1)"
    by (simp add: handleRegExEntity_def V Let_def)
  have b: "\<forall>found p. find (hasName n) (regex_entities s) = Some found \<and> regexPattern found = Some p
          \<and> p \<noteq> [] \<and> regexOf d \<noteq> [] \<and> p \<noteq> regexOf d
       \<longrightarrow> handleRegExEntity s n d rs
            = (Inl (Exception INVALID_REGEX_ENTITY (multipleRegexMsg n (regexOf d) (Some p))), s1)"
    using find_Some_in by (fastforce simp add: handleRegExEntity_def V Let_def re hasName_def)
  have c: "\<forall>found p. find (hasName n) (regex_entities s) = Some found \<and> regexPattern found = Some p
          \<and> \<not> (definitionGiven d \<and> regexOf d = []) \<and> (p = [] \<or> regexOf d = [] \<or> p = regexOf d)
       \<longrightarrow> fst (handleRegExEntity s n d rs) = Inr ()
           \<and> find (hasName n) (regex_entities (snd (handleRegExEntity s n d rs)))
              = Some (found\<lparr>roles := mergeRoles (roles found) (pushMissing rs rolesImport),
                            regexPattern := Some (if p = [] then regexOf d else p)\<rparr>)"
  proof (intro allI impI, elim conjE)
    fix found p
    assume f: "find (hasName n) (regex_entities s) = Some found" and p: "regexPattern found = Some p"
      and nd: "\<not> (definitionGiven d \<and> regexOf d = [])" and ok: "p = [] \<or> regexOf d = [] \<or> p = regexOf d"
    have nm: "name found = n" using find_Some_in[OF f] by (simp add: hasName_def)
    have ex: "list_ex (hasName n) (regex_entities s)" using f by (simp add: list_ex_find)
    have cond: "\<not> (regexPattern found \<noteq> Some [] \<and> regexOf d \<noteq> [] \<and> regexPattern found \<noteq> Some (regexOf d))"
      using p ok by auto
    have eq: "handleRegExEntity s n d rs =
       (Inr (), (addItemOrRoleIfNotPresent s1 REGEX n (pushMissing rs rolesImport))
          \<lparr>regex_entities := updateFirst (hasName n)
              (\<lambda>item. if regexPattern item = Some [] then item\<lparr>regexPattern := Some (regexOf d)\<rparr> else item)
              (regex_entities (addItemOrRoleIfNotPresent s1 REGEX n (pushMissing rs rolesImport)))\<rparr>)"
      using nd cond by (simp add: handleRegExEntity_def V Let_def re f nm)
    have add: "regex_entities (addItemOrRoleIfNotPresent s1 REGEX n (pushMissing rs rolesImport))
       = updateFirst (hasName n) (\<lambda>item. item\<lparr>roles := mergeRoles (roles item) (pushMissing rs rolesImport)\<rparr>) (regex_entities s)"
      using ex by (simp add: addItemOrRoleIfNotPresent_def re)
    show "fst (handleRegExEntity s n d rs) = Inr ()
           \<and> find (hasName n) (regex_entities (snd (handleRegExEntity s n d rs)))
              = Some (found\<lparr>roles := mergeRoles (roles found) (pushMissing rs rolesImport),
                            regexPattern := Some (if p = [] then regexOf d else p)\<rparr>)"
    proof -
      let ?F = "\<lambda>x. if regexPattern (x\<lparr>roles := mergeRoles (roles x) (pushMissing rs rolesImport)\<rparr>) = Some []
                 then x\<lparr>roles := mergeRoles (roles x) (pushMissing rs rolesImport)\<rparr>\<lparr>regexPattern := Some (regexOf d)\<rparr>
                 else x\<lparr>roles := mergeRoles (roles x) (pushMissing rs rolesImport)\<rparr>"
      have "find (hasName n) (updateFirst (hasName n) ?F (regex_entities s)) = Some (?F found)"
        by (rule find_hasName_updateFirst[OF f]) (simp add: nm)
      then show ?thesis using p
        by (simp add: eq add updateFirst_updateFirst hasName_def)
    qed
  qed
  have dd: "find (hasName n) (regex_entities s) = None \<and> \<not> (definitionGiven d \<and> regexOf d = [])
       \<longrightarrow> handleRegExEntity s n d rs
            = (Inr (), s1\<lparr>regex_entities := regex_entities s
                             @ [regExEntity n (regexOf d) (pushMissing rs rolesImport)]\<rparr>)"
    by (auto simp add: handleRegExEntity_def V Let_def re)
  from a b c dd show ?thesis by blast
qed


theorem handleRegExEntity_patterns_witness:
  "handleRegExEntity regexExample ''r1'' (Some ''//'') [''y'']
     = (Inl (Exception INVALID_REGEX_ENTITY (emptyRegexMsg ''r1'')), regexExample)
   \<and> handleRegExEntity regexExample ''r1'' (Some ''/xyz/'') [''y'']
     = (Inl (Exception INVALID_REGEX_ENTITY (multipleRegexMsg ''r1'' ''xyz'' (Some ''abc''))), regexExample)
   \<and> find (hasName ''r1'') (regex_entities (snd (handleRegExEntity regexExample ''r1'' (Some ''/abc/'') [''y''])))
     = Some ((regExEntity ''r1'' ''abc'' [''x''])\<lparr>roles := mergeRoles [''x''] [''y''],
                                                    regexPattern := Some ''abc''\<rparr>)
   \<and> handleRegExEntity regexExample ''r2'' None [''y'']
     = (Inr (), regexExample\<lparr>regex_entities := regex_entities regexExample @ [regExEntity ''r2'' [] [''y'']]\<rparr>)"
proof -
  have V1: "VerifyAndUpdateSimpleEntityCollection regexExample ''r1'' ''RegEx'' = (Inr [], regexExample)"
    by code_simp
  have V2: "VerifyAndUpdateSimpleEntityCollection regexExample ''r2'' ''RegEx'' = (Inr [], regexExample)"
    by code_simp
  have f1: "find (hasName ''r1'') (regex_entities regexExample) = Some (regExEntity ''r1'' ''abc'' [''x''])"
    by code_simp
  have f2: "find (hasName ''r2'') (regex_entities regexExample) = None"
    by code_simp
  have p: "regexPattern (regExEntity ''r1'' ''abc'' [''x'']) = Some ''abc''"
    "roles (regExEntity ''r1'' ''abc'' [''x'']) = [''x'']"
    by (simp_all add: regExEntity_def)
  have d: "definitionGiven (Some ''//'')" "regexOf (Some ''//'') = []"
    "regexOf (Some ''/xyz/'') = ''xyz''" "regexOf (Some ''/abc/'') = ''abc''"
    "definitionGiven (Some ''/abc/'')" "\<not> definitionGiven None" "regexOf None = []"
    by code_simp+
  have pm: "pushMissing [''y''] [] = [''y'']" by code_simp
  show ?thesis
    using handleRegExEntity_patterns[OF V1, of "Some ''//''" "[''y'']"]
      handleRegExEntity_patterns[OF V1, of "Some ''/xyz/''" "[''y'']"]
      handleRegExEntity_patterns[OF V1, of "Some ''/abc/''" "[''y'']"]
      handleRegExEntity_patterns[OF V2, of None "[''y'']"]
    by (simp add: f1 f2 p d pm)
qed


text \<open>
  C6 as stated fails where the declaration carries no definition: its pattern is
  empty, yet nothing is thrown and the record is pushed with the empty pattern.
\<close>

theorem handleRegExEntity_empty_pattern_accepted:
  "regexOf None = []
   \<and> handleRegExEntity blankContent ''r1'' None [''rr'']
     = (Inr (), blankContent\<lparr>regex_entities := [regExEntity ''r1'' [] [''rr'']]\<rparr>)"
  by code_simp

section \<open>Composite entities\<close>

text \<open>
  C5. A composite that is declared again with the children it has gets these children
  appended once more, so the record no longer compares equal to the declaration: the
  composite \<open>c\<close> of the children \<open>a\<close> and \<open>b\<close>, declared a second time with \<open>b\<close> and
  \<open>a\<close>, holds four children, and the third declaration of the same child set throws
  \<open>INVALID_COMPOSITE_ENTITY\<close>.
\<close>

theorem handleComposite_third_declaration_throws:
  "(let s1 = snd (handleComposite blankContent ''c'' ''[a, b]'' [] False);
        s2 = snd (handleComposite s1 ''c'' ''[b, a]'' [] False)
    in map children (composites s1) = [Some [''a'', ''b'']]
       \<and> map children (composites s2) = [Some [''a'', ''b'', ''a'', ''b'']]
       \<and> thrownCode (fst (handleComposite s2 ''c'' ''[a, b]'' [] False))
           = Some INVALID_COMPOSITE_ENTITY)"
  by code_simp

section \<open>Phrase lists\<close>

text \<open>
  C8. Declaring the phrase list \<open>pl1\<close>, which is not interchangeable, as
  interchangeable throws a \<open>ReferenceError\<close>, not an exception with the code
  \<open>INVALID_INPUT\<close>; and with the flag unchanged the value \<open>ab\<close> is not appended to the
  words \<open>abc,x\<close>, which include it as a part of \<open>abc\<close>, while \<open>d\<close> is.
\<close>

theorem handlePhraseList_conflict_and_values:
  "handlePhraseList phraseListExample ''pl1(interchangeable)'' None [] [''y'']
     = (Inl (ReferenceError ''entity is not defined''), phraseListExample)
   \<and> map words (model_features (snd (handlePhraseList phraseListExample ''pl1'' None [] [''ab, d''])))
     = [''abc,x,d'']"
  by code_simp

section \<open>Promotion of a pattern-any entity\<close>


lemma RemoveDuplicate_phraselist:
  "find (hasName n) (patternAnyEntities s) = Some p \<Longrightarrow>
   sublist ''phraselist'' (trim (toLowerCase ty)) \<Longrightarrow>
   RemoveDuplicatePatternAnyEntity s n ty
     = (Inl (Exception INVALID_INPUT (phraseListInPatternMsg n)), s)"
  by (simp add: RemoveDuplicatePatternAnyEntity_def)

lemma RemoveDuplicate_none:
  "find (hasName n) (patternAnyEntities s) = None \<Longrightarrow>
   RemoveDuplicatePatternAnyEntity s n ty = (Inr [], s)"
  by (simp add: RemoveDuplicatePatternAnyEntity_def)














section \<open>Redeclaration of a pattern-any entity\<close>

lemma Verify_patternAny:
  "VerifyAndUpdateSimpleEntityCollection s n ty = (r, s1) \<Longrightarrow> patternAnyEntities s1 = patternAnyEntities s"
  by (auto simp: VerifyAndUpdateSimpleEntityCollection_def Let_def split: option.splits if_splits)





section \<open>Utterance lines\<close>

lemma addItemOrRole_frame:
  "patterns (addItemOrRoleIfNotPresent s ty v rs) = patterns s"
  "utterances (addItemOrRoleIfNotPresent s ty v rs) = utterances s"
  "intents (addItemOrRoleIfNotPresent s ty v rs) = intents s"
  "model_features (addItemOrRoleIfNotPresent s ty v rs) = model_features s"
  "flatListOfEntityAndRoles (addItemOrRoleIfNotPresent s ty v rs) = flatListOfEntityAndRoles s"
  by (cases ty; simp add: addItemOrRoleIfNotPresent_def)+

lemma addItem_frame:
  "patterns (addItemIfNotPresent s ty v) = patterns s"
  "utterances (addItemIfNotPresent s ty v) = utterances s"
  "intents (addItemIfNotPresent s ty v) = intents s"
  "model_features (addItemIfNotPresent s ty v) = model_features s"
  "flatListOfEntityAndRoles (addItemIfNotPresent s ty v) = flatListOfEntityAndRoles s"
  by (cases ty; simp add: addItemIfNotPresent_def)+

lemma addPatternLabel_frame:
  "patterns (addPatternLabel s e) = patterns s"
  "utterances (addPatternLabel s e) = utterances s"
  by (simp_all add: addPatternLabel_def Let_def addItemOrRole_frame addItem_frame)

lemma foldl_addPatternLabel_frame:
  "patterns (foldl addPatternLabel s es) = patterns s"
  "utterances (foldl addPatternLabel s es) = utterances s"
  by (induction es arbitrary: s) (simp_all add: addPatternLabel_frame)

lemma handleAtPrefix_ptype: "ptype (handleAtPrefix e fl) = ptype e"
  by (simp add: handleAtPrefix_def Let_def split: option.splits)

lemma resolveAtLabels_ptype: "map ptype (snd (resolveAtLabels fl u es)) = map ptype es"
  by (induction es arbitrary: u) (simp_all add: Let_def handleAtPrefix_ptype split_beta)

lemma handleAtForPattern_ptype: "map ptype (snd (handleAtForPattern u es fl)) = map ptype es"
  by (simp add: handleAtForPattern_def resolveAtLabels_ptype)

lemma filter_ptype:
  "map ptype es1 = map ptype es \<Longrightarrow>
   (filter (\<lambda>item. ptype item \<noteq> PATTERNANYENTITY) es1 \<noteq> [])
   = list_ex (\<lambda>item. ptype item \<noteq> PATTERNANYENTITY) es"
proof -
  assume m: "map ptype es1 = map ptype es"
  have "(filter (\<lambda>item. ptype item \<noteq> PATTERNANYENTITY) es1 \<noteq> [])
        = (\<exists>t\<in>set (map ptype es1). t \<noteq> PATTERNANYENTITY)"
    by (auto simp: filter_empty_conv)
  also have "\<dots> = (\<exists>t\<in>set (map ptype es). t \<noteq> PATTERNANYENTITY)" by (simp only: m)
  also have "\<dots> = list_ex (\<lambda>item. ptype item \<noteq> PATTERNANYENTITY) es"
    by (auto simp: list_ex_iff)
  finally show ?thesis .
qed

lemma addLinkReference_frame:
  "addLinkReference H s u = Inr s0 \<Longrightarrow>
   patterns s0 = patterns s \<and> utterances s0 = utterances s
   \<and> flatListOfEntityAndRoles s0 = flatListOfEntityAndRoles s"
  by (auto simp: addLinkReference_def split: if_splits sum.splits)

lemma sublist_middle: "sublist xs (a @ xs @ b)"
  by (simp add: sublist_def) blast

text \<open>
  C2. For an utterance line whose link reference, if it is one, was taken in: where a
  label is typed pattern-any and another one is not, the line throws an exception with
  the code \<open>INVALID_INPUT\<close> whose message reads \<open>has mix of entites with labelled
  values\<close> (spelled so); where the line has labels and all are typed pattern-any, it
  returns, no utterance is added, and the pattern of the line and the intent is added
  unless an equal pattern is there.
\<close>

theorem mixed_labels_rejected:
  assumes L: "addLinkReference H s (trim (utterance uae)) = Inr s0"
  shows
   "(list_ex (\<lambda>item. ptype item = PATTERNANYENTITY) (entitiesFound uae)
      \<and> list_ex (\<lambda>item. ptype item \<noteq> PATTERNANYENTITY) (entitiesFound uae)
     \<longrightarrow> handleUtterance H s intentName uae
          = (Inl (Exception INVALID_INPUT (mixedLabelsMsg (contextText uae))), s0))
    \<and> sublist ''has mix of entites with labelled values'' (mixedLabelsMsg (contextText uae))
    \<and> (entitiesFound uae \<noteq> []
        \<and> list_all (\<lambda>item. ptype item = PATTERNANYENTITY) (entitiesFound uae)
     \<longrightarrow> fst (handleUtterance H s intentName uae) = Inr ()
         \<and> utterances (snd (handleUtterance H s intentName uae)) = utterances s
         \<and> patterns (snd (handleUtterance H s intentName uae))
           = (let newPattern = \<lparr>pattern = fst (handleAtForPattern (trim (utterance uae))
                                                 (entitiesFound uae) (flatListOfEntityAndRoles s)),
                                 pintent = intentName\<rparr>
              in if newPattern \<in> set (patterns s) then patterns s
                 else patterns s @ [newPattern]))"
proof -
  let ?u = "trim (utterance uae)"
  let ?es = "entitiesFound uae"
  obtain u1 es1 where h: "handleAtForPattern ?u ?es (flatListOfEntityAndRoles s0) = (u1, es1)"
    by (cases "handleAtForPattern ?u ?es (flatListOfEntityAndRoles s0)") auto
  have fr: "patterns s0 = patterns s" "utterances s0 = utterances s"
    "flatListOfEntityAndRoles s0 = flatListOfEntityAndRoles s"
    using addLinkReference_frame[OF L] by simp_all
  have pt: "map ptype es1 = map ptype ?es"
    using handleAtForPattern_ptype[of ?u ?es "flatListOfEntityAndRoles s0"] h by simp
  have mixed: "(filter (\<lambda>item. ptype item \<noteq> PATTERNANYENTITY) es1 \<noteq> [])
       = list_ex (\<lambda>item. ptype item \<noteq> PATTERNANYENTITY) ?es"
    by (rule filter_ptype[OF pt])
  have a: "list_ex (\<lambda>item. ptype item = PATTERNANYENTITY) ?es
      \<and> list_ex (\<lambda>item. ptype item \<noteq> PATTERNANYENTITY) ?es
     \<longrightarrow> handleUtterance H s intentName uae
          = (Inl (Exception INVALID_INPUT (mixedLabelsMsg (contextText uae))), s0)"
  proof (intro impI, elim conjE)
    assume pa: "list_ex (\<lambda>item. ptype item = PATTERNANYENTITY) ?es"
      and np: "list_ex (\<lambda>item. ptype item \<noteq> PATTERNANYENTITY) ?es"
    from pa have ne: "?es \<noteq> []" by auto
    show "handleUtterance H s intentName uae
          = (Inl (Exception INVALID_INPUT (mixedLabelsMsg (contextText uae))), s0)"
      using pa np ne mixed by (simp add: handleUtterance_def Let_def L h)
  qed
  have b: "sublist ''has mix of entites with labelled values'' (mixedLabelsMsg (contextText uae))"
    unfolding mixedLabelsMsg_def
    using sublist_middle[of "''has mix of entites with labelled values''"
        "''Utterance '' @ dq @ contextText uae @ dq @ '' ''"
        "'' and ones without. Please update utterance to either include labelled values for all entities or remove labelled values from all entities.''"]
    by simp
  have c: "?es \<noteq> [] \<and> list_all (\<lambda>item. ptype item = PATTERNANYENTITY) ?es
     \<longrightarrow> fst (handleUtterance H s intentName uae) = Inr ()
         \<and> utterances (snd (handleUtterance H s intentName uae)) = utterances s
         \<and> patterns (snd (handleUtterance H s intentName uae))
           = (let newPattern = \<lparr>pattern = fst (handleAtForPattern ?u ?es (flatListOfEntityAndRoles s)),
                                 pintent = intentName\<rparr>
              in if newPattern \<in> set (patterns s) then patterns s
                 else patterns s @ [newPattern])"
  proof (intro impI, elim conjE)
    assume ne: "?es \<noteq> []" and all: "list_all (\<lambda>item. ptype item = PATTERNANYENTITY) ?es"
    from ne all have pa: "list_ex (\<lambda>item. ptype item = PATTERNANYENTITY) ?es"
      by (cases ?es) auto
    from all have "\<not> list_ex (\<lambda>item. ptype item \<noteq> PATTERNANYENTITY) ?es"
      by (auto simp: list_all_iff list_ex_iff)
    with mixed have nomix: "filter (\<lambda>item. ptype item \<noteq> PATTERNANYENTITY) es1 = []" by simp
    let ?np = "\<lparr>pattern = u1, pintent = intentName\<rparr>"
    have eq: "handleUtterance H s intentName uae
        = (Inr (), foldl addPatternLabel
                     (if ?np \<in> set (patterns s0) then s0 else s0\<lparr>patterns := patterns s0 @ [?np]\<rparr>) es1)"
      using pa ne nomix by (simp add: handleUtterance_def Let_def L h)
    have u1: "fst (handleAtForPattern ?u ?es (flatListOfEntityAndRoles s)) = u1"
      using h fr by simp
    show "fst (handleUtterance H s intentName uae) = Inr ()
         \<and> utterances (snd (handleUtterance H s intentName uae)) = utterances s
         \<and> patterns (snd (handleUtterance H s intentName uae))
           = (let newPattern = \<lparr>pattern = fst (handleAtForPattern ?u ?es (flatListOfEntityAndRoles s)),
                                 pintent = intentName\<rparr>
              in if newPattern \<in> set (patterns s) then patterns s
                 else patterns s @ [newPattern])"
      by (simp add: eq foldl_addPatternLabel_frame u1 fr Let_def)
  qed
  from a b c show ?thesis by blast
qed


theorem mixed_labels_rejected_witness:
  "handleUtterance plainHelpers blankContent ''Greeting'' mixedLine
     = (Inl (Exception INVALID_INPUT (mixedLabelsMsg ''- hi {name} {city=Seattle}'')), blankContent)
   \<and> fst (handleUtterance plainHelpers blankContent ''Greeting'' patternLine) = Inr ()
   \<and> utterances (snd (handleUtterance plainHelpers blankContent ''Greeting'' patternLine)) = []
   \<and> patterns (snd (handleUtterance plainHelpers blankContent ''Greeting'' patternLine))
     = [\<lparr>pattern = ''hi {name}'', pintent = ''Greeting''\<rparr>]"
proof -
  have L1: "addLinkReference plainHelpers blankContent (trim (utterance mixedLine)) = Inr blankContent"
    by code_simp
  have L2: "addLinkReference plainHelpers blankContent (trim (utterance patternLine)) = Inr blankContent"
    by code_simp
  have m: "list_ex (\<lambda>item. ptype item = PATTERNANYENTITY) (entitiesFound mixedLine)"
    "list_ex (\<lambda>item. ptype item \<noteq> PATTERNANYENTITY) (entitiesFound mixedLine)"
    "contextText mixedLine = ''- hi {name} {city=Seattle}''"
    by code_simp+
  have q: "entitiesFound patternLine \<noteq> []"
    "list_all (\<lambda>item. ptype item = PATTERNANYENTITY) (entitiesFound patternLine)"
    "utterances blankContent = []" "patterns blankContent = []"
    "fst (handleAtForPattern (trim (utterance patternLine)) (entitiesFound patternLine)
           (flatListOfEntityAndRoles blankContent)) = ''hi {name}''"
    by code_simp+
  show ?thesis
    using mixed_labels_rejected[OF L1, of "''Greeting''"] mixed_labels_rejected[OF L2, of "''Greeting''"]
    by (simp add: m q)
qed

section \<open>Lines without labels\<close>

lemma unlabelled_pattern:
  "entitiesFound uae = [] \<Longrightarrow> addLinkReference H s (trim (utterance uae)) = Inr s0 \<Longrightarrow>
   isUtterancePattern H (trim (utterance uae)) \<Longrightarrow>
   handleUtterance H s i uae
     = (Inr (), s0\<lparr>patterns := patterns s0 @ [\<lparr>pattern = trim (utterance uae), pintent = i\<rparr>]\<rparr>)"
  by (simp add: handleUtterance_def Let_def)

text \<open>
  C9. A line without labels that is a pattern is pushed onto the patterns without a
  look at what is there: the same line twice in an intent leaves two equal patterns.
\<close>

theorem unlabelled_pattern_repeated:
  assumes e: "entitiesFound uae = []"
    and l: "\<not> isUtteranceLinkRef H (trim (utterance uae))"
    and p: "isUtterancePattern H (trim (utterance uae))"
  shows "handleUtterances H s i [uae, uae]
     = (Inr (), s\<lparr>patterns := patterns s @ [\<lparr>pattern = trim (utterance uae), pintent = i\<rparr>,
                                             \<lparr>pattern = trim (utterance uae), pintent = i\<rparr>]\<rparr>)"
proof -
  have L: "\<And>t. addLinkReference H t (trim (utterance uae)) = Inr t"
    using l by (simp add: addLinkReference_def)
  show ?thesis
    by (simp add: unlabelled_pattern[OF e L p])
qed

theorem unlabelled_pattern_repeated_witness:
  "patterns (snd (handleUtterances plainHelpers blankContent ''Greeting'' [optionalLine, optionalLine]))
     = [\<lparr>pattern = ''hi [there]'', pintent = ''Greeting''\<rparr>,
        \<lparr>pattern = ''hi [there]'', pintent = ''Greeting''\<rparr>]"
proof -
  have e: "entitiesFound optionalLine = []" by code_simp
  have l: "\<not> isUtteranceLinkRef plainHelpers (trim (utterance optionalLine))" by code_simp
  have p: "isUtterancePattern plainHelpers (trim (utterance optionalLine))" by code_simp
  have t: "trim (utterance optionalLine) = ''hi [there]''" "patterns blankContent = []" by code_simp+
  show ?thesis
    using unlabelled_pattern_repeated[OF e l p, of blankContent "''Greeting''"] by (simp add: t)
qed

section \<open>Unique names in the collections\<close>

lemma map_name_updateFirst:
  "(\<And>x. p x \<Longrightarrow> name (f x) = name x) \<Longrightarrow> map name (updateFirst p f xs) = map name xs"
  by (induction xs) auto

lemma uniqueNames_updateFirst:
  "uniqueNames xs \<Longrightarrow> (\<And>x. p x \<Longrightarrow> name (f x) = name x) \<Longrightarrow> uniqueNames (updateFirst p f xs)"
  by (simp add: uniqueNames_def map_name_updateFirst)

lemma set_removeFirst: "set (removeFirst p xs) \<subseteq> set xs"
  by (induction xs) auto

lemma uniqueNames_removeFirst: "uniqueNames xs \<Longrightarrow> uniqueNames (removeFirst p xs)"
  unfolding uniqueNames_def
proof (induction xs)
  case Nil
  then show ?case by simp
next
  case (Cons x xs)
  then show ?case using set_removeFirst[of p xs] by (auto simp: image_iff)
qed

lemma set_spliceLoop: "set (spliceLoop n xs) \<subseteq> set xs"
  by (induction n xs rule: spliceLoop.induct) auto

lemma uniqueNames_spliceLoop: "uniqueNames xs \<Longrightarrow> uniqueNames (spliceLoop n xs)"
  unfolding uniqueNames_def
proof (induction n xs rule: spliceLoop.induct)
  case (1 n)
  then show ?case by simp
next
  case (2 n x)
  then show ?case by simp
next
  case (3 n x y ys)
  then show ?case
    using set_spliceLoop[of n ys] set_spliceLoop[of n "y # ys"] by (auto simp: image_iff)
qed

lemma uniqueNames_filter: "uniqueNames xs \<Longrightarrow> uniqueNames (filter q xs)"
  by (simp add: uniqueNames_def distinct_map_filter)

lemma uniqueNames_append:
  "uniqueNames xs \<Longrightarrow> \<not> list_ex (hasName (name x)) xs \<Longrightarrow> uniqueNames (xs @ [x])"
  by (auto simp: uniqueNames_def list_ex_iff hasName_def)

lemma uniqueNames_append_find:
  "uniqueNames xs \<Longrightarrow> find (hasName n) xs = None \<Longrightarrow> name x = n \<Longrightarrow> uniqueNames (xs @ [x])"
  by (auto simp: uniqueNames_def find_None_iff hasName_def)

lemma registryUnique_setColl:
  "registryUnique s \<Longrightarrow> uniqueNames xs \<Longrightarrow> registryUnique (setColl ty xs s)"
  by (cases ty) (simp_all add: registryUnique_def)

lemma registryUnique_getColl: "registryUnique s \<Longrightarrow> uniqueNames (getColl ty s)"
  by (cases ty) (simp_all add: registryUnique_def)

lemma registryUnique_frame [simp]:
  "registryUnique (s\<lparr>utterances := us\<rparr>) = registryUnique s"
  "registryUnique (s\<lparr>patterns := ps\<rparr>) = registryUnique s"
  "registryUnique (s\<lparr>flatListOfEntityAndRoles := fl\<rparr>) = registryUnique s"
  "registryUnique (s\<lparr>additionalFilesToParse := fs\<rparr>) = registryUnique s"
  "registryUnique (s\<lparr>wordAlterations := ws\<rparr>) = registryUnique s"
  by (simp_all add: registryUnique_def)

lemma registryUnique_update:
  "registryUnique s \<Longrightarrow> uniqueNames is \<Longrightarrow> registryUnique (s\<lparr>intents := is\<rparr>)"
  "registryUnique s \<Longrightarrow> uniqueNames xs \<Longrightarrow> registryUnique (s\<lparr>entities := xs\<rparr>)"
  "registryUnique s \<Longrightarrow> uniqueNames xs \<Longrightarrow> registryUnique (s\<lparr>composites := xs\<rparr>)"
  "registryUnique s \<Longrightarrow> uniqueNames xs \<Longrightarrow> registryUnique (s\<lparr>closedLists := xs\<rparr>)"
  "registryUnique s \<Longrightarrow> uniqueNames xs \<Longrightarrow> registryUnique (s\<lparr>regex_entities := xs\<rparr>)"
  "registryUnique s \<Longrightarrow> uniqueNames xs \<Longrightarrow> registryUnique (s\<lparr>prebuiltEntities := xs\<rparr>)"
  "registryUnique s \<Longrightarrow> uniqueNames xs \<Longrightarrow> registryUnique (s\<lparr>patternAnyEntities := xs\<rparr>)"
  "registryUnique s \<Longrightarrow> uniqueNames ms \<Longrightarrow> registryUnique (s\<lparr>model_features := ms\<rparr>)"
  by (simp_all add: registryUnique_def)

lemma registryUnique_fields:
  "registryUnique s \<Longrightarrow> uniqueNames (intents s)"
  "registryUnique s \<Longrightarrow> uniqueNames (entities s)"
  "registryUnique s \<Longrightarrow> uniqueNames (composites s)"
  "registryUnique s \<Longrightarrow> uniqueNames (closedLists s)"
  "registryUnique s \<Longrightarrow> uniqueNames (regex_entities s)"
  "registryUnique s \<Longrightarrow> uniqueNames (prebuiltEntities s)"
  "registryUnique s \<Longrightarrow> uniqueNames (patternAnyEntities s)"
  "registryUnique s \<Longrightarrow> uniqueNames (model_features s)"
  by (simp_all add: registryUnique_def)

lemma unique_addIntentIfNotPresent:
  "registryUnique s \<Longrightarrow> registryUnique (addIntentIfNotPresent s v)"
  by (simp add: addIntentIfNotPresent_def registryUnique_update registryUnique_fields uniqueNames_append)

lemma unique_addItemIfNotPresent:
  "registryUnique s \<Longrightarrow> registryUnique (addItemIfNotPresent s ty v)"
  by (simp add: addItemIfNotPresent_def registryUnique_setColl registryUnique_getColl
      uniqueNames_append itemObj_def)

lemma unique_addItemOrRoleIfNotPresent:
  "registryUnique s \<Longrightarrow> registryUnique (addItemOrRoleIfNotPresent s ty v rs)"
  by (simp add: addItemOrRoleIfNotPresent_def registryUnique_setColl registryUnique_getColl
      uniqueNames_append uniqueNames_updateFirst itemObj_def)

lemma Verify_snd:
  "snd (VerifyAndUpdateSimpleEntityCollection s n ty) = s
   \<or> snd (VerifyAndUpdateSimpleEntityCollection s n ty) = s\<lparr>entities := spliceLoop n (entities s)\<rparr>"
proof (cases "find (hasName n) (entities s)")
  case None
  then show ?thesis
    by (simp add: VerifyAndUpdateSimpleEntityCollection_def Let_def split: option.splits)
next
  case (Some a)
  then have "name a = n" using find_Some_in[OF Some] by (simp add: hasName_def)
  then show ?thesis using Some
    by (simp add: VerifyAndUpdateSimpleEntityCollection_def Let_def split: option.splits)
qed

lemma unique_Verify:
  "registryUnique s \<Longrightarrow> registryUnique (snd (VerifyAndUpdateSimpleEntityCollection s n ty))"
  using Verify_snd[of s n ty]
  by (auto simp: registryUnique_update registryUnique_fields uniqueNames_spliceLoop)

lemma unique_Verify':
  "registryUnique s \<Longrightarrow> VerifyAndUpdateSimpleEntityCollection s n ty = (r, s1) \<Longrightarrow> registryUnique s1"
  using unique_Verify[of s n ty] by simp

lemma unique_RemoveDuplicate:
  "registryUnique s \<Longrightarrow> registryUnique (snd (RemoveDuplicatePatternAnyEntity s n ty))"
  by (simp add: RemoveDuplicatePatternAnyEntity_def registryUnique_update registryUnique_fields
      uniqueNames_removeFirst split: option.splits)

lemma unique_validate:
  "registryUnique s \<Longrightarrow> registryUnique (snd (validateAndGetRoles s rt n ty))"
  by (cases rule: validate_cases[of s rt n ty]) simp_all


lemma unique_handlePatternAny:
  assumes u: "registryUnique s"
  shows "registryUnique (snd (handlePatternAny s n rs))"
proof -
  obtain r s1 where V: "VerifyAndUpdateSimpleEntityCollection s n ''Pattern.Any'' = (r, s1)"
    by (cases "VerifyAndUpdateSimpleEntityCollection s n ''Pattern.Any''") auto
  have u1: "registryUnique s1" by (rule unique_Verify'[OF u V])
  show ?thesis
  proof (cases r)
    case (Inl err)
    then show ?thesis using u1 by (simp add: handlePatternAny_def V)
  next
    case (Inr rolesImport)
    show ?thesis
    proof (cases "find (hasName n) (patternAnyEntities s1)")
      case None
      then show ?thesis using u1 Inr
        by (simp add: handlePatternAny_def V Let_def registryUnique_update registryUnique_fields
            uniqueNames_append_find patternAnyEntity_def)
    next
      case (Some a)
      then show ?thesis using u1 Inr
        by (simp add: handlePatternAny_def V Let_def registryUnique_update registryUnique_fields
            uniqueNames_updateFirst)
    qed
  qed
qed

lemma unique_handlePhraseList:
  assumes u: "registryUnique s"
  shows "registryUnique (snd (handlePhraseList s n ty rs vs))"
proof (cases "rs \<noteq> []")
  case True
  then show ?thesis using u by (simp add: handlePhraseList_def)
next
  case False
  obtain r s1 where V: "VerifyAndUpdateSimpleEntityCollection s n ''Phrase List'' = (r, s1)"
    by (cases "VerifyAndUpdateSimpleEntityCollection s n ''Phrase List''") auto
  have u1: "registryUnique s1" by (rule unique_Verify'[OF u V])
  show ?thesis
  proof (cases r)
    case (Inl err)
    then show ?thesis using u1 False by (simp add: handlePhraseList_def V)
  next
    case (Inr rolesImport)
    then show ?thesis using u1 False
      by (simp add: handlePhraseList_def V Let_def registryUnique_update registryUnique_fields
          uniqueNames_append_find uniqueNames_updateFirst split: option.splits)
  qed
qed

lemma unique_handlePrebuiltEntity:
  assumes u: "registryUnique s"
  shows "registryUnique (snd (handlePrebuiltEntity B s n ty rs loc lg))"
proof -
  obtain r s1 where V: "VerifyAndUpdateSimpleEntityCollection s ty n = (r, s1)"
    by (cases "VerifyAndUpdateSimpleEntityCollection s ty n") auto
  have u1: "registryUnique s1" by (rule unique_Verify'[OF u V])
  show ?thesis
  proof (cases r)
    case (Inl err)
    then show ?thesis using u1 by (simp add: handlePrebuiltEntity_def V Let_def)
  next
    case (Inr rolesImport)
    then show ?thesis using u1
      by (simp add: handlePrebuiltEntity_def V Let_def unique_addItemOrRoleIfNotPresent
          split: option.splits availability.splits)
  qed
qed

lemma unique_handleRegExEntity:
  assumes u: "registryUnique s"
  shows "registryUnique (snd (handleRegExEntity s n ty rs))"
proof -
  obtain r s1 where V: "VerifyAndUpdateSimpleEntityCollection s n ''RegEx'' = (r, s1)"
    by (cases "VerifyAndUpdateSimpleEntityCollection s n ''RegEx''") auto
  have u1: "registryUnique s1" by (rule unique_Verify'[OF u V])
  show ?thesis
  proof (cases r)
    case (Inl err)
    then show ?thesis using u1 by (simp add: handleRegExEntity_def V)
  next
    case (Inr rolesImport)
    show ?thesis
    proof (cases "find (hasName n) (regex_entities s1)")
      case None
      then show ?thesis using u1 Inr
        by (simp add: handleRegExEntity_def V Let_def registryUnique_update registryUnique_fields
            uniqueNames_append_find regExEntity_def)
    next
      case (Some a)
      have "registryUnique (addItemOrRoleIfNotPresent s1 REGEX (name a) (pushMissing rs rolesImport))"
        by (rule unique_addItemOrRoleIfNotPresent[OF u1])
      then show ?thesis using u1 Inr Some
        by (simp add: handleRegExEntity_def V Let_def registryUnique_update registryUnique_fields
            uniqueNames_updateFirst)
    qed
  qed
qed

lemma unique_handleComposite:
  assumes u: "registryUnique s"
  shows "registryUnique (snd (handleComposite s n ty rs req))"
proof -
  define s1 where "s1 = (case find (hasName n) (entities s) of
                  None \<Rightarrow> s
                | Some simple \<Rightarrow> s\<lparr>entities := spliceLoop (name simple) (entities s)\<rparr>)"
  have u1: "registryUnique s1"
    using u by (simp add: s1_def registryUnique_update registryUnique_fields uniqueNames_spliceLoop
        split: option.splits)
  show ?thesis
  proof (cases "find (hasName n) (composites s1)")
    case None
    then show ?thesis using u1
      by (simp add: handleComposite_def Let_def s1_def[symmetric] registryUnique_update
          registryUnique_fields uniqueNames_append_find uniqueNames_filter compositeEntity_def)
  next
    case (Some a)
    have add: "\<And>t v r. registryUnique t \<Longrightarrow> registryUnique (addItemOrRoleIfNotPresent t COMPOSITES v r)"
      by (rule unique_addItemOrRoleIfNotPresent)
    show ?thesis using u1 Some
      by (simp add: handleComposite_def Let_def s1_def[symmetric] registryUnique_update
          registryUnique_fields uniqueNames_updateFirst add split: option.splits)
  qed
qed


lemma name_closeSubList: "name (closeSubList cl nv) = name cl"
  by (simp add: closeSubList_def split: nvRef.splits)

lemma name_synonymItems:
  "(case synonymItems n line cl nv items of Inl (err, c) \<Rightarrow> name c | Inr (c, nv1) \<Rightarrow> name c) = name cl"
  by (induction items arbitrary: cl nv) (simp_all split: nvRef.splits)

lemma name_listLinesLoop:
  "(case listLinesLoop n cl nv ls of Inl (err, c) \<Rightarrow> name c | Inr (c, nv1) \<Rightarrow> name c) = name cl"
proof (induction ls arbitrary: cl nv)
  case Nil
  then show ?case by simp
next
  case (Cons line ls)
  show ?case
  proof (cases "suffix '':'' (toLowerCase line)")
    case True
    then show ?thesis
      using Cons[of "closeSubList cl nv"]
      by (simp add: Let_def name_closeSubList split: option.splits)
  next
    case False
    show ?thesis
    proof (cases "synonymItems n line cl nv (map trim (splitOn isCommaOrSemicolon line))")
      case (Inl a)
      then show ?thesis using False
        name_synonymItems[of n line cl nv "map trim (splitOn isCommaOrSemicolon line)"]
        by (simp split: prod.splits)
    next
      case (Inr b)
      then show ?thesis using False Cons[of "fst b" "snd b"]
        name_synonymItems[of n line cl nv "map trim (splitOn isCommaOrSemicolon line)"]
        by (simp split: prod.splits)
    qed
  qed
qed

lemma unique_handleClosedList:
  assumes u: "registryUnique s"
  shows "registryUnique (snd (handleClosedList s n ls rs))"
proof -
  obtain r s1 where V: "VerifyAndUpdateSimpleEntityCollection s n ''List'' = (r, s1)"
    by (cases "VerifyAndUpdateSimpleEntityCollection s n ''List''") auto
  have u1: "registryUnique s1" by (rule unique_Verify'[OF u V])
  show ?thesis
  proof (cases r)
    case (Inl err)
    then show ?thesis using u1 by (simp add: handleClosedList_def V)
  next
    case (Inr rolesImport)
    show ?thesis
    proof (cases "find (hasName n) (closedLists s1)")
      case None
      have nm: "name (newClosedLists n [] []) = n" by (simp add: newClosedLists_def)
      show ?thesis
      proof (cases "listLinesLoop n (newClosedLists n [] []) NoNV ls")
        case (Inl a)
        obtain err c where a: "a = (err, c)" by (cases a)
        show ?thesis using u1 Inr None Inl a
          by (simp add: handleClosedList_def V Let_def)
      next
        case (Inr b)
        obtain c nv where b: "b = (c, nv)" by (cases b)
        have "name c = n"
          using name_listLinesLoop[of n "newClosedLists n [] []" NoNV ls] Inr nm b by simp
        then have "name ((closeSubList c nv)\<lparr>roles := pushMissing (roles (closeSubList c nv))
                     (pushMissing rs rolesImport)\<rparr>) = n"
          by (simp add: name_closeSubList)
        then have "uniqueNames (closedLists s1 @ [(closeSubList c nv)\<lparr>roles :=
                     pushMissing (roles (closeSubList c nv)) (pushMissing rs rolesImport)\<rparr>])"
          using uniqueNames_append_find[OF registryUnique_fields(4)[OF u1] None] by blast
        then show ?thesis using u1 \<open>r = Inr rolesImport\<close> None Inr b
          by (simp add: handleClosedList_def V Let_def registryUnique_update)
      qed
    next
      case (Some cl)
      have nm: "name cl = n" using find_Some_in[OF Some] by (simp add: hasName_def)
      have upd: "\<And>c. name c = n \<Longrightarrow>
          registryUnique (s1\<lparr>closedLists := updateFirst (hasName n) (\<lambda>item. c) (closedLists s1)\<rparr>)"
      proof -
        fix c :: luItem
        assume c: "name c = n"
        have "uniqueNames (updateFirst (hasName n) (\<lambda>item. c) (closedLists s1))"
          by (rule uniqueNames_updateFirst[OF registryUnique_fields(4)[OF u1]])
            (simp add: hasName_def c)
        then show "registryUnique (s1\<lparr>closedLists := updateFirst (hasName n) (\<lambda>item. c) (closedLists s1)\<rparr>)"
          using u1 by (simp add: registryUnique_update)
      qed
      show ?thesis
      proof (cases "listLinesLoop n cl NoNV ls")
        case (Inl a)
        obtain err c where a: "a = (err, c)" by (cases a)
        have "name c = n"
          using name_listLinesLoop[of n cl NoNV ls] Inl nm a by simp
        then show ?thesis using upd[of c] Inr Some Inl a
          by (simp add: handleClosedList_def V Let_def)
      next
        case (Inr b)
        obtain c nv where b: "b = (c, nv)" by (cases b)
        have "name c = n"
          using name_listLinesLoop[of n cl NoNV ls] Inr nm b by simp
        then have "name ((closeSubList c nv)\<lparr>roles := pushMissing (roles (closeSubList c nv))
                     (pushMissing rs rolesImport)\<rparr>) = n"
          by (simp add: name_closeSubList)
        from upd[OF this] show ?thesis using \<open>r = Inr rolesImport\<close> Some Inr b
          by (simp add: handleClosedList_def V Let_def)
      qed
    qed
  qed
qed

lemma filterMatch_Nil: "filterMatch name n xs = [] \<Longrightarrow> find (hasName n) xs = None"
  by (auto simp: filterMatch_def find_None_iff filter_empty_conv hasName_def)

lemma unique_handleLegacyList:
  assumes u: "registryUnique s"
  shows "registryUnique (snd (handleLegacyList H s e ty rs))"
proof -
  obtain r s1 where V: "VerifyAndUpdateSimpleEntityCollection s (legacyEntity.Name e) ''List'' = (r, s1)"
    by (cases "VerifyAndUpdateSimpleEntityCollection s (legacyEntity.Name e) ''List''") auto
  have u1: "registryUnique s1" by (rule unique_Verify'[OF u V])
  show ?thesis
  proof (cases r)
    case (Inl err)
    then show ?thesis using u1 by (simp add: handleLegacyList_def V Let_def)
  next
    case (Inr rolesImport)
    show ?thesis
    proof (cases "filterMatch name (legacyEntity.Name e) (closedLists s1)")
      case Nil
      then show ?thesis using u1 Inr filterMatch_Nil[OF Nil]
        by (simp add: handleLegacyList_def V Let_def registryUnique_update registryUnique_fields
            uniqueNames_append_find newClosedLists_def)
    next
      case (Cons cl others)
      then show ?thesis using u1 Inr
        by (simp add: handleLegacyList_def V Let_def registryUnique_update registryUnique_fields
            uniqueNames_updateFirst split: option.splits)
    qed
  qed
qed

lemma unique_dispatchEntity:
  "registryUnique s \<Longrightarrow> registryUnique (snd (dispatchEntity H B lg loc s e ty rs))"
  by (simp add: dispatchEntity_def Let_def unique_handlePrebuiltEntity unique_addItemOrRoleIfNotPresent
      unique_handleLegacyList unique_handlePhraseList unique_handleComposite unique_handleRegExEntity)

lemma unique_handleEntity:
  assumes u: "registryUnique s"
  shows "registryUnique (snd (handleEntity H B lg loc s e))"
proof -
  let ?R = "RemoveDuplicatePatternAnyEntity s (pEntityNameOf H e) (snd (getRolesAndType H (legacyEntity.Type e)))"
  have u1: "registryUnique (snd ?R)" by (rule unique_RemoveDuplicate[OF u])
  show ?thesis
  proof (cases ?R)
    case (Pair r s1)
    then show ?thesis using u1
      by (cases r) (simp_all add: handleEntity_def Let_def unique_dispatchEntity)
  qed
qed

lemma unique_dispatchEntityV2:
  "registryUnique s \<Longrightarrow> registryUnique (snd (dispatchEntityV2 E B lg loc s e n ty rs))"
  by (simp add: dispatchEntityV2_def unique_handlePrebuiltEntity unique_addItemOrRoleIfNotPresent
      unique_handleClosedList unique_handlePhraseList unique_handleComposite unique_handleRegExEntity
      unique_handlePatternAny split: list.splits)

lemma unique_handleEntityV2:
  assumes u: "registryUnique s"
  shows "registryUnique (snd (handleEntityV2 E B lg loc es s e))"
proof (cases "\<not> truthyText (declaredType es e) \<or> the (declaredType es e) = stripQuotes (Name e)")
  case True
  then show ?thesis using u by (auto simp: handleEntityV2_def Let_def)
next
  case False
  let ?V = "validateAndGetRoles s (Roles e) (stripQuotes (Name e)) (the (declaredType es e))"
  have u1: "registryUnique (snd ?V)" by (rule unique_validate[OF u])
  show ?thesis
  proof (cases ?V)
    case (Pair r s1)
    show ?thesis
    proof (cases r)
      case (Inl err)
      then show ?thesis using False Pair u1 by (simp add: handleEntityV2_def Let_def)
    next
      case (Inr entityRoles)
      let ?R = "RemoveDuplicatePatternAnyEntity s1 (stripQuotes (Name e)) (the (declaredType es e))"
      have u2: "registryUnique (snd ?R)" using unique_RemoveDuplicate[of s1] u1 Pair by simp
      show ?thesis
      proof (cases ?R)
        case (Pair r2 s2)
        then show ?thesis using False \<open>?V = (r, s1)\<close> Inr u2
          by (cases r2) (simp_all add: handleEntityV2_def Let_def unique_dispatchEntityV2)
      qed
    qed
  qed
qed


lemma unique_addPatternLabel: "registryUnique s \<Longrightarrow> registryUnique (addPatternLabel s e)"
  by (simp add: addPatternLabel_def Let_def unique_addItemOrRoleIfNotPresent unique_addItemIfNotPresent)

lemma unique_foldl_addPatternLabel:
  "registryUnique s \<Longrightarrow> registryUnique (foldl addPatternLabel s es)"
  by (induction es arbitrary: s) (simp_all add: unique_addPatternLabel)

lemma unique_addUtteranceLabel:
  assumes u: "registryUnique s"
  shows "registryUnique (snd (addUtteranceLabel s t e))"
proof -
  have rm: "\<And>v rs. registryUnique
      ((addItemOrRoleIfNotPresent s ENTITIES v rs)\<lparr>patternAnyEntities :=
          removeFirst (hasName v) (patternAnyEntities (addItemOrRoleIfNotPresent s ENTITIES v rs))\<rparr>)"
    using unique_addItemOrRoleIfNotPresent[OF u]
    by (simp add: registryUnique_update registryUnique_fields uniqueNames_removeFirst)
  show ?thesis
    using u
    by (simp add: addUtteranceLabel_def Let_def unique_addItemOrRoleIfNotPresent
        unique_addItemIfNotPresent rm split: option.splits)
qed

lemma unique_addUtteranceLabels:
  "registryUnique s \<Longrightarrow> registryUnique (snd (addUtteranceLabels s t es))"
proof (induction es arbitrary: s)
  case Nil
  then show ?case by simp
next
  case (Cons e es)
  have u1: "registryUnique (snd (addUtteranceLabel s t e))"
    by (rule unique_addUtteranceLabel[OF Cons.prems])
  show ?case
  proof (cases "addUtteranceLabel s t e")
    case (Pair r s1)
    show ?thesis
    proof (cases r)
      case (Inl err)
      then show ?thesis using Pair u1 by simp
    next
      case (Inr e1)
      have "registryUnique (snd (addUtteranceLabels s1 t es))"
        using Cons.IH[of s1] u1 Pair by simp
      then show ?thesis using Pair Inr
        by (auto split: prod.splits sum.splits)
    qed
  qed
qed

lemma unique_addLabelledUtterance:
  "registryUnique s \<Longrightarrow> registryUnique (snd (addLabelledUtterance s t i ctx es))"
  by (simp add: addLabelledUtterance_def split: option.splits sum.splits prod.splits)

lemma unique_addLinkReference:
  "registryUnique s \<Longrightarrow> addLinkReference H s t = Inr s0 \<Longrightarrow> registryUnique s0"
  by (auto simp: addLinkReference_def split: if_splits sum.splits)

lemma unique_handleUtterance:
  assumes u: "registryUnique s"
  shows "registryUnique (snd (handleUtterance H s i uae))"
proof (cases "addLinkReference H s (trim (utterance uae))")
  case (Inl err)
  then show ?thesis using u by (simp add: handleUtterance_def Let_def)
next
  case (Inr s0)
  have u0: "registryUnique s0" by (rule unique_addLinkReference[OF u Inr])
  have lab: "registryUnique (snd (addUtteranceLabels s0 (trim (utterance uae)) (entitiesFound uae)))"
    by (rule unique_addUtteranceLabels[OF u0])
  have fold: "\<And>t es. registryUnique t \<Longrightarrow> registryUnique (foldl addPatternLabel t es)"
    by (rule unique_foldl_addPatternLabel)
  have lu: "\<And>t a b c d. registryUnique t \<Longrightarrow> registryUnique (snd (addLabelledUtterance t a b c d))"
    by (rule unique_addLabelledUtterance)
  show ?thesis
  proof (cases "addUtteranceLabels s0 (trim (utterance uae)) (entitiesFound uae)")
    case (Pair r s1)
    then have u1: "registryUnique s1" using lab by simp
    show ?thesis
      using u0 u1 Pair
      by (cases r)
        (simp_all add: handleUtterance_def Let_def Inr fold lu split: prod.splits)
  qed
qed

lemma unique_handleUtterances:
  "registryUnique s \<Longrightarrow> registryUnique (snd (handleUtterances H s i ls))"
proof (induction ls arbitrary: s)
  case Nil
  then show ?case by simp
next
  case (Cons l ls)
  have u1: "registryUnique (snd (handleUtterance H s i l))"
    by (rule unique_handleUtterance[OF Cons.prems])
  show ?case
  proof (cases "handleUtterance H s i l")
    case (Pair r s1)
    then show ?thesis using u1 Cons.IH[of s1]
      by (cases r) simp_all
  qed
qed

lemma unique_parseAndHandleIntent:
  "registryUnique s \<Longrightarrow> registryUnique (snd (parseAndHandleIntent H s is))"
proof (induction "is" arbitrary: s)
  case Nil
  then show ?case by simp
next
  case (Cons i rest)
  have u1: "registryUnique (snd (handleUtterances H (addIntentIfNotPresent s (IName i)) (IName i)
             (UtteranceAndEntitiesMap i)))"
    by (rule unique_handleUtterances[OF unique_addIntentIfNotPresent[OF Cons.prems]])
  show ?case
  proof (cases "handleUtterances H (addIntentIfNotPresent s (IName i)) (IName i)
             (UtteranceAndEntitiesMap i)")
    case (Pair r s1)
    then show ?thesis using u1 Cons.IH[of s1]
      by (cases r) simp_all
  qed
qed

lemma unique_parseAndHandleEntityV2:
  "registryUnique s \<Longrightarrow> registryUnique (snd (parseAndHandleEntityV2 E B lg loc es s ds))"
proof (induction ds arbitrary: s)
  case Nil
  then show ?case by simp
next
  case (Cons d ds)
  have u1: "registryUnique (snd (handleEntityV2 E B lg loc es s d))"
    by (rule unique_handleEntityV2[OF Cons.prems])
  show ?case
  proof (cases "handleEntityV2 E B lg loc es s d")
    case (Pair r s1)
    then show ?thesis using u1 Cons.IH[of s1]
      by (cases r) simp_all
  qed
qed

lemma unique_parseAndHandleEntity:
  "registryUnique s \<Longrightarrow> registryUnique (snd (parseAndHandleEntity H B lg loc s ds))"
proof (induction ds arbitrary: s)
  case Nil
  then show ?case by simp
next
  case (Cons d ds)
  have u1: "registryUnique (snd (handleEntity H B lg loc s d))"
    by (rule unique_handleEntity[OF Cons.prems])
  show ?case
  proof (cases "handleEntity H B lg loc s d")
    case (Pair r s1)
    then show ?thesis using u1 Cons.IH[of s1]
      by (cases r) simp_all
  qed
qed

lemma unique_blankContent: "registryUnique blankContent"
  by (simp add: registryUnique_def blankContent_def uniqueNames_def)

text \<open>
  C10. In every parsed content that the operations of the parser lead to from the
  blank one, no collection of a kind (intents, simple entities, composites, closed
  lists, regular expression entities, prebuilt entities, pattern-any entities and
  phrase lists) holds two records of the same name: every path that pushes a record
  has looked for one of that name first.
\<close>

theorem registry_names_unique: "reachable s \<Longrightarrow> registryUnique s"
proof (induction rule: reachable.induct)
  case blank
  show ?case by (rule unique_blankContent)
next
  case (insertIntent s v)
  then show ?case by (simp add: unique_addIntentIfNotPresent)
next
  case (insertItem s ty v)
  then show ?case by (simp add: unique_addItemIfNotPresent)
next
  case (insertItemOrRole s ty v rs)
  then show ?case by (simp add: unique_addItemOrRoleIfNotPresent)
next
  case (verifySimple s n t)
  then show ?case by (simp add: unique_Verify)
next
  case (removePatternAny s n t)
  then show ?case by (simp add: unique_RemoveDuplicate)
next
  case (validateRoles s rolesText n t)
  then show ?case by (simp add: unique_validate)
next
  case (patternAny s n rs)
  then show ?case by (simp add: unique_handlePatternAny)
next
  case (phraseList s n topt rs ls)
  then show ?case by (simp add: unique_handlePhraseList)
next
  case (prebuilt s B n t rs loc lg)
  then show ?case by (simp add: unique_handlePrebuiltEntity)
next
  case (composite s n t rs inlineChildRequired)
  then show ?case by (simp add: unique_handleComposite)
next
  case (regEx s n topt rs)
  then show ?case by (simp add: unique_handleRegExEntity)
next
  case (closedList s n ls rs)
  then show ?case by (simp add: unique_handleClosedList)
next
  case (newDefinition s E B lg loc es e)
  then show ?case by (simp add: unique_handleEntityV2)
next
  case (utteranceLine s H intentName uae)
  then show ?case by (simp add: unique_handleUtterance)
next
  case (legacyDefinition s H B lg loc d)
  then show ?case by (simp add: unique_handleEntity)
qed

theorem registry_names_unique_witness:
  "registryUnique (snd (handleUtterance plainHelpers
      (snd (handleEntityV2 entityTypes noBuiltIns False None [] blankContent patternAnyAgain))
      ''Greeting'' patternLine))
   \<and> map name (patternAnyEntities (snd (handleUtterance plainHelpers
      (snd (handleEntityV2 entityTypes noBuiltIns False None [] blankContent patternAnyAgain))
      ''Greeting'' patternLine))) = [''x'', ''name'']"
proof -
  have r: "reachable (snd (handleUtterance plainHelpers
      (snd (handleEntityV2 entityTypes noBuiltIns False None [] blankContent patternAnyAgain))
      ''Greeting'' patternLine))"
    by (intro reachable.utteranceLine reachable.newDefinition reachable.blank)
  have n: "map name (patternAnyEntities (snd (handleUtterance plainHelpers
      (snd (handleEntityV2 entityTypes noBuiltIns False None [] blankContent patternAnyAgain))
      ''Greeting'' patternLine))) = [''x'', ''name'']"
    by code_simp
  show ?thesis using registry_names_unique[OF r] n by (rule conjI)
qed

section \<open>What holds of the upsert, the composites, the phrase lists and the plain lines\<close>

text \<open>
  The upsert is idempotent, and it appends to an existing record, in their order, the
  declared roles that the record lacks and that are not spelled like an inherited
  property.
\<close>

lemma updateFirst_append_new:
  "\<not> list_ex p xs \<Longrightarrow> p x \<Longrightarrow> updateFirst p f (xs @ [x]) = xs @ [f x]"
  by (induction xs) auto

lemma mergeRoles_self: "mergeRoles rs rs = rs"
  by (simp add: mergeRoles_def rolesMapHas_def)

lemma list_ex_updateFirst:
  "(\<And>x. p (f x) = p x) \<Longrightarrow> list_ex p (updateFirst p f xs) = list_ex p xs"
  by (induction xs) auto

lemma upsert_idempotent:
  "addItemOrRoleIfNotPresent (addItemOrRoleIfNotPresent s ty v rs) ty v rs
     = addItemOrRoleIfNotPresent s ty v rs"
proof (cases "list_ex (hasName v) (getColl ty s)")
  case True
  let ?f = "\<lambda>item::luItem. item\<lparr>roles := mergeRoles (roles item) rs\<rparr>"
  have ex: "list_ex (hasName v) (updateFirst (hasName v) ?f (getColl ty s))"
    using True by (simp add: list_ex_updateFirst hasName_def)
  have "updateFirst (hasName v) ?f (updateFirst (hasName v) ?f (getColl ty s))
        = updateFirst (hasName v) (\<lambda>x. ?f (?f x)) (getColl ty s)"
    by (rule updateFirst_updateFirst) (simp add: hasName_def)
  also have "(\<lambda>x. ?f (?f x)) = ?f" by (simp add: mergeRoles_idem)
  finally show ?thesis using True ex
    by (simp add: addItemOrRoleIfNotPresent_def getColl_setColl setColl_setColl)
next
  case False
  have h: "hasName v (itemObj ty v rs)" by (simp add: hasName_def itemObj_def)
  have "(itemObj ty v rs)\<lparr>roles := mergeRoles (roles (itemObj ty v rs)) rs\<rparr> = itemObj ty v rs"
    by (simp add: itemObj_def mergeRoles_self)
  then show ?thesis using False h
    by (simp add: addItemOrRoleIfNotPresent_def getColl_setColl setColl_setColl
        updateFirst_append_new)
qed

lemma upsert_appends_new_roles:
  assumes f: "find (hasName v) (getColl ty s) = Some x"
  shows "find (hasName v) (getColl ty (addItemOrRoleIfNotPresent s ty v rs))
           = Some (x\<lparr>roles := roles x @ filter (\<lambda>r. r \<notin> set (roles x) \<and> r \<notin> set objectPrototypeKeys) rs\<rparr>)"
proof -
  have nm: "name x = v" using find_Some_in[OF f] by (simp add: hasName_def)
  have ex: "list_ex (hasName v) (getColl ty s)" using f by (simp add: list_ex_find)
  have "find (hasName v) (updateFirst (hasName v) (\<lambda>item. item\<lparr>roles := mergeRoles (roles item) rs\<rparr>) (getColl ty s))
        = Some (x\<lparr>roles := mergeRoles (roles x) rs\<rparr>)"
    by (rule find_hasName_updateFirst[OF f]) (simp add: nm)
  then show ?thesis using ex
    by (simp add: addItemOrRoleIfNotPresent_def getColl_setColl mergeRoles_def rolesMapHas_def)
qed

text \<open>
  A composite: an empty child list where one is required inline throws; a declaration
  whose sorted children differ from those, not empty, of the record throws; one whose
  sorted children are those of the record returns, merges the roles and appends the
  children. Two lists without repetitions of the same set sort alike.
\<close>

lemma sort_same_set:
  fixes xs ys :: "string list"
  shows "distinct xs \<Longrightarrow> distinct ys \<Longrightarrow> set xs = set ys \<Longrightarrow> sort xs = sort ys"
  by (rule sorted_distinct_set_unique) simp_all

lemma handleComposite_missing_children:
  "childDefinitionOf t = [] \<Longrightarrow>
   thrownCode (fst (handleComposite s n t rs True)) = Some INVALID_COMPOSITE_ENTITY"
  by (simp add: handleComposite_def Let_def thrownCode_def)

lemma handleComposite_different_children:
  assumes nosimple: "find (hasName n) (entities s) = None"
    and f: "find (hasName n) (composites s) = Some found"
    and c: "children found = Some cs" "cs \<noteq> []"
    and d: "sort (compositeChildrenOf t) \<noteq> sort cs"
    and r: "\<not> (childDefinitionOf t = [] \<and> req)"
  shows "thrownCode (fst (handleComposite s n t rs req)) = Some INVALID_COMPOSITE_ENTITY"
  using assms by (auto simp add: handleComposite_def Let_def thrownCode_def)

lemma handleComposite_same_children:
  assumes nosimple: "find (hasName n) (entities s) = None"
    and f: "find (hasName n) (composites s) = Some found"
    and c: "children found = Some cs" "cs \<noteq> []"
    and d: "sort (compositeChildrenOf t) = sort cs"
    and r: "\<not> (childDefinitionOf t = [] \<and> req)"
  shows "fst (handleComposite s n t rs req) = Inr ()
     \<and> find (hasName n) (composites (snd (handleComposite s n t rs req)))
       = Some (found\<lparr>roles := mergeRoles (roles found) rs,
                     children := Some (sort cs @ sort cs)\<rparr>)"
proof -
  have nm: "name found = n" using find_Some_in[OF f] by (simp add: hasName_def)
  let ?g = "\<lambda>item::luItem. item\<lparr>children := Some (sort cs @ sort cs)\<rparr>"
  let ?s2 = "s\<lparr>composites := updateFirst (hasName n) ?g (composites s)\<rparr>"
  have eq: "handleComposite s n t rs req = (Inr (), addItemOrRoleIfNotPresent ?s2 COMPOSITES n rs)"
    using assms nm by (auto simp add: handleComposite_def Let_def)
  have f2: "find (hasName n) (composites ?s2) = Some (?g found)"
    using find_hasName_updateFirst[OF f, of ?g] nm by simp
  have "find (hasName n) (getColl COMPOSITES (addItemOrRoleIfNotPresent ?s2 COMPOSITES n rs))
        = Some ((?g found)\<lparr>roles := mergeRoles (roles (?g found)) rs\<rparr>)"
  proof -
    have ex: "list_ex (hasName n) (getColl COMPOSITES ?s2)" using f2 by (simp add: list_ex_find)
    have "find (hasName n) (updateFirst (hasName n) (\<lambda>item. item\<lparr>roles := mergeRoles (roles item) rs\<rparr>)
              (getColl COMPOSITES ?s2)) = Some ((?g found)\<lparr>roles := mergeRoles (roles (?g found)) rs\<rparr>)"
      by (rule find_hasName_updateFirst) (use f2 nm in simp_all)
    then show ?thesis using ex by (simp add: addItemOrRoleIfNotPresent_def)
  qed
  then show ?thesis by (simp add: eq)
qed

text \<open>A phrase list that is declared with roles throws \<open>INVALID_INPUT\<close>.\<close>

lemma handlePhraseList_roles:
  "rs \<noteq> [] \<Longrightarrow>
   handlePhraseList s n t rs vs = (Inl (Exception INVALID_INPUT (phraseListRolesMsg n rs)), s)"
  by (simp add: handlePhraseList_def)

text \<open>
  Called for a name whose pattern-any record is still in the collection,
  \<open>handlePatternAny\<close> leaves the record as it is: the roles of the declaration do
  not reach it.
\<close>

lemma updateFirst_same: "updateFirst p (\<lambda>x. x) xs = xs"
  by (induction xs) auto

lemma handlePatternAny_existing_record:
  assumes V: "VerifyAndUpdateSimpleEntityCollection s n ''Pattern.Any'' = (Inr rolesImport, s1)"
    and f: "find (hasName n) (patternAnyEntities s) = Some found"
  shows "handlePatternAny s n rs = (Inr (), s1)"
proof -
  have pa: "patternAnyEntities s1 = patternAnyEntities s" by (rule Verify_patternAny[OF V])
  have fn: "(\<lambda>item::luItem. item\<lparr>roles := roles item
              @ filter (\<lambda>r. includesMethodIsFalsy) (pushMissing rs rolesImport)\<rparr>) = (\<lambda>item. item)"
    by (simp add: includesMethodIsFalsy_def)
  show ?thesis using f
    by (simp add: handlePatternAny_def V Let_def pa fn updateFirst_same)
qed

text \<open>A plain line without labels is added once, however often it is repeated.\<close>

lemma plain_utterance_repeated:
  assumes e: "entitiesFound uae = []"
    and l: "\<not> isUtteranceLinkRef H (trim (utterance uae))"
    and p: "\<not> isUtterancePattern H (trim (utterance uae))"
  shows "handleUtterances H s i [uae, uae]
     = (Inr (), if list_ex (sameUtterance (trim (utterance uae)) i) (utterances s) then s
                else s\<lparr>utterances := utterances s
                       @ [\<lparr>utext = trim (utterance uae), intent = i, uentities = []\<rparr>]\<rparr>)"
  using assms
  by (simp add: handleUtterance_def Let_def addLinkReference_def sameUtterance_def)

end
